theory Spec2Isabelle
  imports Complex_Main "HOL-Library.Sublist"
begin

section \<open>Data model\<close>

text \<open>
  The spectral analysis engine of the repository is its scientific utility module. The
  repository holds two copies of it. The definitions up to the analysis follow the copy
  that tests for empty inputs and zero divisors and solves the normal equations by
  Gaussian elimination; the copy in \<^verbatim>\<open>src/utils/scientific.ts\<close> follows in a section of
  its own.

  The module works on JavaScript numbers, which are IEEE 754 doubles. The definitions of
  the first sections compute with exact real numbers; they serve for the properties that
  do not depend on rounding (which branch is taken on given values, the order of the
  stages, index bounds). The functions whose results the claims tie to rounded values are
  defined a second time, with every arithmetic result rounded, in the section on
  evaluation in double precision. Where the source can divide by zero or read an array
  out of range, JavaScript produces \<^verbatim>\<open>NaN\<close> or an infinity instead of a number; the
  model then returns \<open>None\<close>.
\<close>

record SpectralDataPoint =
  wavelength :: real
  intensity :: real

record Peak =
  position :: real
  amplitude :: real
  fwhm :: real
  area :: real
  prominence :: real

section \<open>Numeric kernels\<close>

text \<open>
  \<^verbatim>\<open>trapezoidalIntegration\<close>: the loop runs over \<open>i = 1, \<dots>, length - 1\<close> and adds
  \<open>dx * avgY\<close> for each adjacent pair.
\<close>

definition trapezoidalIntegration :: "SpectralDataPoint list \<Rightarrow> real" where
  "trapezoidalIntegration data =
     (\<Sum>i\<leftarrow>[1..<length data].
        (wavelength (data ! i) - wavelength (data ! (i - 1))) *
        ((intensity (data ! i) + intensity (data ! (i - 1))) / 2))"

section \<open>Peak detection\<close>

text \<open>
  \<^verbatim>\<open>calculateFWHM\<close>: two \<^verbatim>\<open>while\<close> loops walk from the peak index to the left and to
  the right as long as the intensity at the current index is above half of the peak
  intensity. The function is only called from \<^verbatim>\<open>detectPeaks\<close>, with an interior index.
\<close>

function walkLeft :: "SpectralDataPoint list \<Rightarrow> real \<Rightarrow> nat \<Rightarrow> nat" where
  "walkLeft data halfMax leftIdx =
     (if leftIdx > 0 \<and> intensity (data ! leftIdx) > halfMax
      then walkLeft data halfMax (leftIdx - 1) else leftIdx)"
  by pat_completeness auto
termination
  by (relation "measure (\<lambda>(data, halfMax, leftIdx). leftIdx)") auto

function walkRight :: "SpectralDataPoint list \<Rightarrow> real \<Rightarrow> nat \<Rightarrow> nat" where
  "walkRight data halfMax rightIdx =
     (if rightIdx + 1 < length data \<and> intensity (data ! rightIdx) > halfMax
      then walkRight data halfMax (rightIdx + 1) else rightIdx)"
  by pat_completeness auto
termination
  by (relation "measure (\<lambda>(data, halfMax, rightIdx). length data - rightIdx)") auto

declare walkLeft.simps [simp del] walkRight.simps [simp del]

definition calculateFWHM :: "SpectralDataPoint list \<Rightarrow> nat \<Rightarrow> real" where
  "calculateFWHM data peakIndex =
     (let peakIntensity = intensity (data ! peakIndex);
          halfMax = peakIntensity / 2;
          leftIdx = walkLeft data halfMax peakIndex;
          rightIdx = walkRight data halfMax peakIndex
      in wavelength (data ! rightIdx) - wavelength (data ! leftIdx))"

definition calculatePeakArea :: "SpectralDataPoint list \<Rightarrow> nat \<Rightarrow> real \<Rightarrow> real" where
  "calculatePeakArea data peakIndex fwhm' =
     (let currentWavelength = wavelength (data ! peakIndex);
          leftWavelength = currentWavelength - fwhm';
          rightWavelength = currentWavelength + fwhm';
          peakData = filter (\<lambda>d. wavelength d \<ge> leftWavelength \<and> wavelength d \<le> rightWavelength) data
      in trapezoidalIntegration peakData)"

text \<open>
  \<^verbatim>\<open>detectPeaks\<close>: the loop visits the interior indices \<open>1 \<le> i < length - 1\<close> in
  ascending order and pushes a peak for every local maximum that reaches \<open>minHeight\<close>;
  the collected peaks are then filtered by prominence.
\<close>

definition peakAt :: "SpectralDataPoint list \<Rightarrow> real \<Rightarrow> nat \<Rightarrow> Peak option" where
  "peakAt data minHeight i =
     (let prev = intensity (data ! (i - 1));
          curr = intensity (data ! i);
          next = intensity (data ! (i + 1))
      in if curr > prev \<and> curr > next \<and> curr \<ge> minHeight
         then (let fwhm' = calculateFWHM data i;
                   area' = calculatePeakArea data i fwhm';
                   simpleProminence = curr - min prev next
               in Some \<lparr>position = wavelength (data ! i), amplitude = curr, fwhm = fwhm',
                         area = area', prominence = simpleProminence\<rparr>)
         else None)"

definition detectPeaks :: "SpectralDataPoint list \<Rightarrow> real \<Rightarrow> real \<Rightarrow> Peak list" where
  "detectPeaks data prominence' minHeight =
     (let peaks = List.map_filter (peakAt data minHeight) [1..<length data - 1]
      in filter (\<lambda>p. prominence p \<ge> prominence') peaks)"

definition scenario :: "SpectralDataPoint list" where
  "scenario =
     [\<lparr>wavelength = 500, intensity = 1/10\<rparr>, \<lparr>wavelength = 502, intensity = 3/10\<rparr>,
      \<lparr>wavelength = 504, intensity = 9/10\<rparr>, \<lparr>wavelength = 506, intensity = 3/10\<rparr>,
      \<lparr>wavelength = 508, intensity = 1/10\<rparr>]"


section \<open>Statistics, outlier removal and normalization\<close>

record Statistics =
  mean_intensity :: real
  std_intensity :: real
  max_intensity :: real
  min_intensity :: real
  total_area :: real

text \<open>
  \<^verbatim>\<open>Math.max(...xs)\<close> and \<^verbatim>\<open>Math.min(...xs)\<close>. Every call in this module is behind a
  check that the list is not empty (JavaScript gives an infinity for no arguments).
\<close>

fun Math_max :: "real list \<Rightarrow> real" where
  "Math_max (x # xs) = fold max xs x"

fun Math_min :: "real list \<Rightarrow> real" where
  "Math_min (x # xs) = fold min xs x"

definition calculateStatistics :: "SpectralDataPoint list \<Rightarrow> Statistics" where
  "calculateStatistics data =
     (if length data = 0
      then \<lparr>mean_intensity = 0, std_intensity = 0, max_intensity = 0, min_intensity = 0,
            total_area = 0\<rparr>
      else (let intensities = map intensity data;
                mean = sum_list intensities / real (length intensities);
                variance = (\<Sum>val\<leftarrow>intensities. (val - mean)\<^sup>2) / real (length intensities);
                std = sqrt variance
            in \<lparr>mean_intensity = mean, std_intensity = std,
                max_intensity = Math_max intensities, min_intensity = Math_min intensities,
                total_area = trapezoidalIntegration data\<rparr>))"

definition removeOutliers :: "SpectralDataPoint list \<Rightarrow> real \<Rightarrow> SpectralDataPoint list" where
  "removeOutliers data threshold' =
     (if length data = 0 then data
      else (let intensities = map intensity data;
                mean = sum_list intensities / real (length intensities);
                variance = (\<Sum>val\<leftarrow>intensities. (val - mean)\<^sup>2) / real (length intensities);
                std = sqrt variance
            in if std = 0 then data
               else filter (\<lambda>d. \<bar>intensity d - mean\<bar> \<le> threshold' * std) data))"

datatype norm_method = NormMax | NormArea

definition normalizeSpectrum :: "SpectralDataPoint list \<Rightarrow> norm_method \<Rightarrow> SpectralDataPoint list" where
  "normalizeSpectrum data method =
     (if length data = 0 then data
      else if method = NormMax
      then (let maxIntensity = Math_max (map intensity data)
            in if maxIntensity = 0 then data
               else map (\<lambda>d. \<lparr>wavelength = wavelength d, intensity = intensity d / maxIntensity\<rparr>) data)
      else (let area' = trapezoidalIntegration data
            in if area' = 0 then data
               else map (\<lambda>d. \<lparr>wavelength = wavelength d, intensity = intensity d / area'\<rparr>) data))"

section \<open>Peak-shape models and curve synthesis\<close>

definition gaussian :: "real \<Rightarrow> real \<Rightarrow> real \<Rightarrow> real \<Rightarrow> real" where
  "gaussian x amplitude' center width =
     (if width = 0 then 0
      else amplitude' * exp (- ((x - center)\<^sup>2) / (2 * width\<^sup>2)))"

definition lorentzian :: "real \<Rightarrow> real \<Rightarrow> real \<Rightarrow> real \<Rightarrow> real" where
  "lorentzian x amplitude' center width =
     (if width = 0 then 0
      else amplitude' / (1 + ((x - center) / width)\<^sup>2))"

definition fitGaussian :: "SpectralDataPoint list \<Rightarrow> Peak list \<Rightarrow> SpectralDataPoint list" where
  "fitGaussian data peaks =
     map (\<lambda>point.
            \<lparr>wavelength = wavelength point,
             intensity = (\<Sum>peak\<leftarrow>peaks.
                (let sigma = fwhm peak / (2355 / 1000)
                 in gaussian (wavelength point) (amplitude peak) (position peak) sigma))\<rparr>) data"

definition fitLorentzian :: "SpectralDataPoint list \<Rightarrow> Peak list \<Rightarrow> SpectralDataPoint list" where
  "fitLorentzian data peaks =
     map (\<lambda>point.
            \<lparr>wavelength = wavelength point,
             intensity = (\<Sum>peak\<leftarrow>peaks.
                (let halfWidth = fwhm peak / 2
                 in lorentzian (wavelength point) (amplitude peak) (position peak) halfWidth))\<rparr>) data"

section \<open>Goodness of fit\<close>

text \<open>
  Both functions read \<^verbatim>\<open>predicted[i]\<close> for every index of \<^verbatim>\<open>observed\<close>. Past the end
  of \<^verbatim>\<open>predicted\<close> that is \<^verbatim>\<open>undefined\<close> and the sum becomes \<^verbatim>\<open>NaN\<close>: the model
  returns \<open>None\<close> where the source returns that sum.
\<close>

definition calculateRSquared :: "real list \<Rightarrow> real list \<Rightarrow> real option" where
  "calculateRSquared observed predicted =
     (if length observed = 0 then Some 0
      else (let mean = sum_list observed / real (length observed);
                ssTotal = (\<Sum>val\<leftarrow>observed. (val - mean)\<^sup>2);
                ssResidual = (\<Sum>i\<leftarrow>[0..<length observed]. (observed ! i - predicted ! i)\<^sup>2)
            in if ssTotal = 0 then Some 0
               else if length predicted < length observed then None
               else Some (1 - ssResidual / ssTotal)))"

definition calculateRMSE :: "real list \<Rightarrow> real list \<Rightarrow> real option" where
  "calculateRMSE observed predicted =
     (if length observed = 0 then Some 0
      else if length predicted < length observed then None
      else (let mse = (\<Sum>i\<leftarrow>[0..<length observed]. (observed ! i - predicted ! i)\<^sup>2)
                        / real (length observed)
            in Some (sqrt mse)))"


section \<open>Noise reduction\<close>

text \<open>
  \<^verbatim>\<open>savitzkyGolayFilter\<close>: a moving average. For the point at index \<open>i\<close> the inner loop
  runs over \<open>j = -halfWindow, \<dots>, halfWindow\<close>, adds the intensities at the indices
  \<open>i + j\<close> that lie inside the array and counts them; the new intensity is
  \<open>sum / count\<close>. With no index in range the source divides zero by zero.
\<close>

definition smoothAt :: "SpectralDataPoint list \<Rightarrow> int \<Rightarrow> nat \<Rightarrow> real option" where
  "smoothAt data halfWindow i =
     (let js = filter (\<lambda>j. int i + j \<ge> 0 \<and> int i + j < int (length data))
                 [- halfWindow..halfWindow];
          sum = (\<Sum>j\<leftarrow>js. intensity (data ! nat (int i + j)));
          count = length js
      in if count = 0 then None else Some (sum / real count))"

definition savitzkyGolayFilter ::
  "SpectralDataPoint list \<Rightarrow> int \<Rightarrow> int \<Rightarrow> SpectralDataPoint list option" where
  "savitzkyGolayFilter data windowLength polynomialOrder =
     (let windowLength = (if windowLength mod 2 = 0 then windowLength + 1 else windowLength);
          halfWindow = windowLength div 2
      in those (map (\<lambda>i. map_option
                             (\<lambda>v. \<lparr>wavelength = wavelength (data ! i), intensity = v\<rparr>)
                             (smoothAt data halfWindow i))
                  [0..<length data]))"

section \<open>Polynomial baseline correction\<close>

text \<open>
  \<^verbatim>\<open>gaussianElimination\<close> works in place on the matrix \<open>A\<close> and the vector \<open>B\<close>. The
  model passes both through the loops. A pivot that is zero after the row swap makes
  the source divide by zero (in the elimination and again in the back substitution):
  the model stops with \<open>None\<close> there.
\<close>

definition pivotRow :: "real list list \<Rightarrow> nat \<Rightarrow> nat \<Rightarrow> nat" where
  "pivotRow A n i =
     snd (fold (\<lambda>k (maxEl, maxRow).
                  if \<bar>A ! k ! i\<bar> > maxEl then (\<bar>A ! k ! i\<bar>, k) else (maxEl, maxRow))
            [i + 1..<n] (\<bar>A ! i ! i\<bar>, i))"

definition swapRows :: "real list list \<Rightarrow> nat \<Rightarrow> nat \<Rightarrow> nat \<Rightarrow> real list list" where
  "swapRows A n i maxRow =
     fold (\<lambda>k A. (let tmp = A ! maxRow ! k;
                      A = A[maxRow := (A ! maxRow)[k := A ! i ! k]]
                  in A[i := (A ! i)[k := tmp]]))
       [i..<n] A"

definition eliminateRow ::
  "nat \<Rightarrow> nat \<Rightarrow> nat \<Rightarrow> real list list \<times> real list \<Rightarrow> real list list \<times> real list" where
  "eliminateRow n i k AB =
     (let A = fst AB; B = snd AB;
          c = - (A ! k ! i) / (A ! i ! i);
          A = fold (\<lambda>j A. if i = j then A[k := (A ! k)[j := 0]]
                          else A[k := (A ! k)[j := A ! k ! j + c * A ! i ! j]])
                [i..<n] A;
          B = B[k := B ! k + c * B ! i]
      in (A, B))"

definition eliminationStep ::
  "nat \<Rightarrow> nat \<Rightarrow> real list list \<times> real list \<Rightarrow> (real list list \<times> real list) option" where
  "eliminationStep n i AB =
     (let A = fst AB; B = snd AB;
          maxRow = pivotRow A n i;
          A = swapRows A n i maxRow;
          tmp = B ! maxRow;
          B = B[maxRow := B ! i];
          B = B[i := tmp]
      in if A ! i ! i = 0 then None
         else Some (fold (eliminateRow n i) [i + 1..<n] (A, B)))"

definition backSubstitution :: "real list list \<Rightarrow> real list \<Rightarrow> nat \<Rightarrow> real list" where
  "backSubstitution A B n =
     fold (\<lambda>i x. (let sum = (\<Sum>j\<leftarrow>[i + 1..<n]. A ! i ! j * x ! j)
                  in x[i := (B ! i - sum) / (A ! i ! i)]))
       (rev [0..<n]) (replicate n 0)"

definition gaussianElimination :: "real list list \<Rightarrow> real list \<Rightarrow> real list option" where
  "gaussianElimination A B =
     (let n = length B
      in case fold (\<lambda>i AB. Option.bind AB (eliminationStep n i)) [0..<n] (Some (A, B)) of
           None \<Rightarrow> None
         | Some (A, B) \<Rightarrow> Some (backSubstitution A B n))"

text \<open>
  \<^verbatim>\<open>polyfit\<close> builds the normal equations \<open>A[r][c] = \<Sum> x\<^sub>i^(r+c)\<close>,
  \<open>B[r] = \<Sum> y\<^sub>i * x\<^sub>i^r\<close> and solves them.
\<close>

definition polyfit :: "real list \<Rightarrow> real list \<Rightarrow> nat \<Rightarrow> real list option" where
  "polyfit x y degree =
     (let n = length x;
          k = degree + 1;
          A = map (\<lambda>r. map (\<lambda>c. (\<Sum>i\<leftarrow>[0..<n]. (x ! i) ^ (r + c))) [0..<k]) [0..<k];
          B = map (\<lambda>r. (\<Sum>i\<leftarrow>[0..<n]. y ! i * (x ! i) ^ r)) [0..<k]
      in gaussianElimination A B)"

definition polynomialBaselineCorrection ::
  "SpectralDataPoint list \<Rightarrow> nat \<Rightarrow> SpectralDataPoint list option" where
  "polynomialBaselineCorrection data degree =
     (if length data = 0 then Some data
      else (let x = map real [0..<length data];
                y = map intensity data
            in case polyfit x y degree of
                 None \<Rightarrow> None
               | Some coeffs \<Rightarrow>
                   (let baseline = map (\<lambda>xi. (\<Sum>i\<leftarrow>[0..<length coeffs]. coeffs ! i * xi ^ i)) x
                    in Some (map (\<lambda>i. \<lparr>wavelength = wavelength (data ! i),
                                        intensity = max 0 (intensity (data ! i) - baseline ! i)\<rparr>)
                               [0..<length data]))))"


section \<open>Preprocessing pipeline\<close>

text \<open>
  \<^verbatim>\<open>PreprocessingParams\<close>: every sub-configuration is optional. The three \<^verbatim>\<open>method\<close>
  fields get distinct names here; the noise reduction method has the single value
  \<^verbatim>\<open>'savitzky-golay'\<close> and is left out.
\<close>

record NoiseReduction =
  window_length :: int
  polynomial_order :: int

datatype baseline_method = Polynomial | Als

record BaselineCorrection =
  bc_method :: baseline_method
  polynomial_degree :: "nat option"
  als_lambda :: "real option"
  als_p :: "real option"

record Normalization =
  nz_method :: norm_method

record OutlierRemoval =
  enabled :: bool
  threshold :: real

record PreprocessingParams =
  noise_reduction :: "NoiseReduction option"
  baseline_correction :: "BaselineCorrection option"
  normalization :: "Normalization option"
  outlier_removal :: "OutlierRemoval option"

text \<open>\<^verbatim>\<open>polynomial_degree || 2\<close>: a missing degree and the degree 0 both give 2.\<close>

definition degreeOrDefault :: "nat option \<Rightarrow> nat" where
  "degreeOrDefault d = (case d of None \<Rightarrow> 2 | Some k \<Rightarrow> if k = 0 then 2 else k)"

definition preprocessSpectrum ::
  "SpectralDataPoint list \<Rightarrow> PreprocessingParams \<Rightarrow> SpectralDataPoint list option" where
  "preprocessSpectrum data params =
     (let processed = data;
          processed =
            (case outlier_removal params of
               Some c \<Rightarrow> if enabled c then removeOutliers processed (threshold c) else processed
             | None \<Rightarrow> processed)
      in case (case noise_reduction params of
                 Some c \<Rightarrow> savitzkyGolayFilter processed (window_length c) (polynomial_order c)
               | None \<Rightarrow> Some processed) of
           None \<Rightarrow> None
         | Some processed \<Rightarrow>
             (case (case baseline_correction params of
                      Some c \<Rightarrow>
                        if bc_method c = Polynomial
                        then polynomialBaselineCorrection processed
                               (degreeOrDefault (polynomial_degree c))
                        else Some processed
                    | None \<Rightarrow> Some processed) of
                None \<Rightarrow> None
              | Some processed \<Rightarrow>
                  (case normalization params of
                     Some c \<Rightarrow> Some (normalizeSpectrum processed (nz_method c))
                   | None \<Rightarrow> Some processed)))"

subsection \<open>The pipeline as the specification words it\<close>

text \<open>
  Four stages in the fixed order outlier removal, noise reduction, baseline correction,
  normalization. A stage without its sub-configuration passes the spectrum on unchanged;
  every stage works on what the stage before it produced.
\<close>

definition stage :: "'c option \<Rightarrow> ('c \<Rightarrow> 'a \<Rightarrow> 'a option) \<Rightarrow> 'a \<Rightarrow> 'a option" where
  "stage cfg run d = (case cfg of None \<Rightarrow> Some d | Some c \<Rightarrow> run c d)"

definition outlierStage :: "PreprocessingParams \<Rightarrow> SpectralDataPoint list \<Rightarrow> SpectralDataPoint list option" where
  "outlierStage params =
     stage (outlier_removal params)
       (\<lambda>c d. if enabled c then Some (removeOutliers d (threshold c)) else Some d)"

definition noiseStage :: "PreprocessingParams \<Rightarrow> SpectralDataPoint list \<Rightarrow> SpectralDataPoint list option" where
  "noiseStage params =
     stage (noise_reduction params)
       (\<lambda>c d. savitzkyGolayFilter d (window_length c) (polynomial_order c))"

definition baselineStage :: "PreprocessingParams \<Rightarrow> SpectralDataPoint list \<Rightarrow> SpectralDataPoint list option" where
  "baselineStage params =
     stage (baseline_correction params)
       (\<lambda>c d. case bc_method c of
                 Polynomial \<Rightarrow> polynomialBaselineCorrection d (degreeOrDefault (polynomial_degree c))
               | Als \<Rightarrow> Some d)"

definition normalizationStage :: "PreprocessingParams \<Rightarrow> SpectralDataPoint list \<Rightarrow> SpectralDataPoint list option" where
  "normalizationStage params =
     stage (normalization params) (\<lambda>c d. Some (normalizeSpectrum d (nz_method c)))"

definition pipelineSpec ::
  "PreprocessingParams \<Rightarrow> SpectralDataPoint list \<Rightarrow> SpectralDataPoint list option" where
  "pipelineSpec params data =
     Option.bind (Option.bind (Option.bind (outlierStage params data) (noiseStage params))
                    (baselineStage params))
       (normalizationStage params)"

section \<open>Analysis\<close>

datatype fit_model = Gaussian | Lorentzian | Voigt

record FittingResult =
  model :: fit_model
  peaks :: "Peak list"
  r_squared :: "real option"
  rmse :: "real option"
  fitted_data :: "SpectralDataPoint list"

text \<open>
  The curve selection of \<^verbatim>\<open>handleAnalyze\<close>: an \<^verbatim>\<open>if\<close> chain on the model name, whose
  last branch (every model that is neither Gaussian nor Lorentzian) calls
  \<^verbatim>\<open>fitGaussian\<close>.
\<close>

definition fitCurve :: "fit_model \<Rightarrow> SpectralDataPoint list \<Rightarrow> Peak list \<Rightarrow> SpectralDataPoint list" where
  "fitCurve m data detectedPeaks =
     (if m = Gaussian then fitGaussian data detectedPeaks
      else if m = Lorentzian then fitLorentzian data detectedPeaks
      else fitGaussian data detectedPeaks)"

text \<open>
  \<^verbatim>\<open>handleAnalyze\<close> without its user interface and storage effects: it returns early on
  an empty spectrum and when no peak is detected, and otherwise builds the fitting result
  and the statistics that are stored.
\<close>

datatype analysis = NotRun | NoPeaksDetected | Analysed FittingResult Statistics

definition handleAnalyze ::
  "SpectralDataPoint list \<Rightarrow> real \<Rightarrow> real \<Rightarrow> fit_model \<Rightarrow> analysis" where
  "handleAnalyze data prominence' minHeight m =
     (if length data = 0 then NotRun
      else (let detectedPeaks = detectPeaks data prominence' minHeight
            in if length detectedPeaks = 0 then NoPeaksDetected
               else (let fittedData = fitCurve m data detectedPeaks;
                         observed = map intensity data;
                         predicted = map intensity fittedData;
                         rSquared = calculateRSquared observed predicted;
                         rmse' = calculateRMSE observed predicted;
                         result = \<lparr>model = m, peaks = detectedPeaks, r_squared = rSquared,
                                   rmse = rmse', fitted_data = fittedData\<rparr>;
                         statistics = calculateStatistics data
                     in Analysed result statistics)))"


section \<open>The near-duplicate module \<^verbatim>\<open>src/utils/scientific.ts\<close>\<close>

text \<open>
  The repository holds a second copy of the utility module with the same function names.
  Its functions carry the suffix \<open>_ts\<close> here. \<^verbatim>\<open>trapezoidalIntegration\<close>,
  \<^verbatim>\<open>calculateFWHM\<close> and \<^verbatim>\<open>calculatePeakArea\<close> have the same text in both modules and
  are shared. This copy has none of the tests for an empty input or a zero divisor, so
  more of its functions can leave the real numbers; they return \<open>None\<close> there.
\<close>

text \<open>\<^verbatim>\<open>detectPeaks\<close>: the height test is the strict \<^verbatim>\<open>curr > minHeight\<close>.\<close>

definition peakAt_ts :: "SpectralDataPoint list \<Rightarrow> real \<Rightarrow> nat \<Rightarrow> Peak option" where
  "peakAt_ts data minHeight i =
     (let prev = intensity (data ! (i - 1));
          curr = intensity (data ! i);
          next = intensity (data ! (i + 1))
      in if curr > prev \<and> curr > next \<and> curr > minHeight
         then (let fwhm' = calculateFWHM data i;
                   area' = calculatePeakArea data i fwhm'
               in Some \<lparr>position = wavelength (data ! i), amplitude = curr, fwhm = fwhm',
                         area = area', prominence = curr - min prev next\<rparr>)
         else None)"

definition detectPeaks_ts :: "SpectralDataPoint list \<Rightarrow> real \<Rightarrow> real \<Rightarrow> Peak list" where
  "detectPeaks_ts data prominence' minHeight =
     (let peaks = List.map_filter (peakAt_ts data minHeight) [1..<length data - 1]
      in filter (\<lambda>p. prominence p \<ge> prominence') peaks)"

text \<open>
  \<^verbatim>\<open>gaussian\<close> and \<^verbatim>\<open>lorentzian\<close> divide by the width without a test. At width 0 and
  \<open>x = center\<close> the quotient is \<open>0/0\<close> and the result is \<^verbatim>\<open>NaN\<close>; at width 0 and
  \<open>x \<noteq> center\<close> the quotient is an infinity and the result is 0 (in exact arithmetic,
  where the square of \<open>x - center\<close> is not 0).
\<close>

definition gaussian_ts :: "real \<Rightarrow> real \<Rightarrow> real \<Rightarrow> real \<Rightarrow> real option" where
  "gaussian_ts x amplitude' center width =
     (if width = 0 then (if x = center then None else Some 0)
      else Some (amplitude' * exp (- ((x - center)\<^sup>2) / (2 * width\<^sup>2))))"

definition lorentzian_ts :: "real \<Rightarrow> real \<Rightarrow> real \<Rightarrow> real \<Rightarrow> real option" where
  "lorentzian_ts x amplitude' center width =
     (if width = 0 then (if x = center then None else Some 0)
      else Some (amplitude' / (1 + ((x - center) / width)\<^sup>2)))"

text \<open>
  \<^verbatim>\<open>calculateRMSE\<close> and \<^verbatim>\<open>calculateStatistics\<close> divide by the length, which is 0 for an
  empty input. (\<^verbatim>\<open>normalizeSpectrum\<close> and \<^verbatim>\<open>calculateRSquared\<close> of this copy follow in
  the section on evaluation in double precision.)
\<close>

definition calculateRMSE_ts :: "real list \<Rightarrow> real list \<Rightarrow> real option" where
  "calculateRMSE_ts observed predicted =
     (if length observed = 0 then None
      else if length predicted < length observed then None
      else (let mse = (\<Sum>i\<leftarrow>[0..<length observed]. (observed ! i - predicted ! i)\<^sup>2)
                        / real (length observed)
            in Some (sqrt mse)))"

definition calculateStatistics_ts :: "SpectralDataPoint list \<Rightarrow> Statistics option" where
  "calculateStatistics_ts data =
     (if length data = 0 then None
      else (let intensities = map intensity data;
                mean = sum_list intensities / real (length intensities);
                variance = (\<Sum>val\<leftarrow>intensities. (val - mean)\<^sup>2) / real (length intensities)
            in Some \<lparr>mean_intensity = mean, std_intensity = sqrt variance,
                     max_intensity = Math_max intensities, min_intensity = Math_min intensities,
                     total_area = trapezoidalIntegration data\<rparr>))"

text \<open>
  \<^verbatim>\<open>savitzkyGolayFilter\<close>: the first and the last \<open>halfWindow\<close> points are copied; every
  other point gets the average of the full window around it, cut out with
  \<^verbatim>\<open>Array.prototype.slice\<close> (negative bounds count from the end, all bounds are clipped
  to the array).
\<close>

definition js_slice :: "'a list \<Rightarrow> int \<Rightarrow> int \<Rightarrow> 'a list" where
  "js_slice xs start end' =
     (let len = int (length xs);
          s = (if start < 0 then max (len + start) 0 else min start len);
          e = (if end' < 0 then max (len + end') 0 else min end' len)
      in take (nat (e - s)) (drop (nat s) xs))"

definition polynomialSmooth :: "real list \<Rightarrow> int \<Rightarrow> real list" where
  "polynomialSmooth values order =
     (let n = length values;
          sum = sum_list values;
          avg = sum / real n
      in map (\<lambda>_. avg) values)"

definition savitzkyGolayFilter_ts ::
  "SpectralDataPoint list \<Rightarrow> int \<Rightarrow> int \<Rightarrow> SpectralDataPoint list option" where
  "savitzkyGolayFilter_ts data windowLength polynomialOrder =
     (let windowLength = (if windowLength mod 2 = 0 then windowLength + 1 else windowLength);
          halfWindow = windowLength div 2
      in those (map (\<lambda>i.
                  if int i < halfWindow \<or> int i \<ge> int (length data) - halfWindow
                  then Some (data ! i)
                  else (let window = js_slice data (int i - halfWindow) (int i + halfWindow + 1);
                            smoothed = polynomialSmooth (map intensity window) polynomialOrder
                        in if 0 \<le> halfWindow \<and> nat halfWindow < length smoothed
                           then Some \<lparr>wavelength = wavelength (data ! i),
                                      intensity = smoothed ! nat halfWindow\<rparr>
                           else None))
                  [0..<length data]))"

text \<open>
  \<^verbatim>\<open>polyfit\<close>: the design matrix is built and not used; the result is the mean of \<open>y\<close>
  as the constant coefficient and 0 for every higher power.
\<close>

definition polyfit_ts :: "real list \<Rightarrow> real list \<Rightarrow> nat \<Rightarrow> real list option" where
  "polyfit_ts x y degree =
     (let n = length x;
          m = degree + 1;
          coeffs = replicate m 0
      in if n = 0 then None else Some (coeffs[0 := sum_list y / real n]))"

definition polynomialBaselineCorrection_ts ::
  "SpectralDataPoint list \<Rightarrow> nat \<Rightarrow> SpectralDataPoint list option" where
  "polynomialBaselineCorrection_ts data degree =
     (let x = map real [0..<length data];
          y = map intensity data
      in case polyfit_ts x y degree of
           None \<Rightarrow> those (map (\<lambda>d. None) data)
         | Some coeffs \<Rightarrow>
             (let baseline = map (\<lambda>xi. (\<Sum>i\<leftarrow>[0..<degree + 1]. coeffs ! i * xi ^ i)) x
              in Some (map (\<lambda>i. \<lparr>wavelength = wavelength (data ! i),
                                  intensity = max 0 (intensity (data ! i) - baseline ! i)\<rparr>)
                         [0..<length data])))"

section \<open>Evaluation in double precision\<close>

text \<open>
  The definitions above compute with exact real numbers. The source computes with IEEE 754
  doubles: every arithmetic result is rounded to the nearest double. The definitions of
  this section repeat the functions whose results depend on that, with a rounding function
  \<open>rd\<close> applied to the result of every operation, in the order in which the source
  evaluates. With the identity for \<open>rd\<close> they are the exact definitions; with \<open>rd64\<close> they
  are the source in double arithmetic, as long as no intermediate result overflows.
  \<^verbatim>\<open>Math.pow(x, 2)\<close> and \<^verbatim>\<open>Math.sqrt\<close> are taken as the rounded square and the rounded
  square root.
\<close>

text \<open>
  Rounding to the nearest double, ties to the even mantissa: 53 bits of mantissa for
  normal numbers, multiples of \<open>2 ^ (-1074)\<close> below \<open>2 ^ (-1022)\<close>. Results beyond the
  largest double, for which the source gives an infinity, are not modelled.
\<close>

definition round_half_even :: "real \<Rightarrow> int" where
  "round_half_even q =
     (let f = \<lfloor>q\<rfloor>; d = q - of_int f
      in if d < 1/2 then f else if 1/2 < d then f + 1 else if even f then f else f + 1)"

definition rd64 :: "real \<Rightarrow> real" where
  "rd64 x =
     (if x = 0 then 0
      else (let e = max \<lfloor>log 2 \<bar>x\<bar>\<rfloor> (- 1022);
                u = 2 powr of_int (e - 52)
            in of_int (round_half_even (x / u)) * u))"

text \<open>The doubles that the decimal literals 0.1, 0.2, 0.3, 0.6 and 0.9 denote.\<close>

definition dbl_0_1 :: real where "dbl_0_1 = 3602879701896397 / 36028797018963968"
definition dbl_0_2 :: real where "dbl_0_2 = 3602879701896397 / 18014398509481984"
definition dbl_0_3 :: real where "dbl_0_3 = 5404319552844595 / 18014398509481984"
definition dbl_0_6 :: real where "dbl_0_6 = 5404319552844595 / 9007199254740992"
definition dbl_0_9 :: real where "dbl_0_9 = 8106479329266893 / 9007199254740992"

text \<open>\<^verbatim>\<open>xs.reduce((a, b) => a + b, 0)\<close>, \<^verbatim>\<open>Math.pow(x, 2)\<close>, \<^verbatim>\<open>Math.sqrt(x)\<close>.\<close>

definition sum_fl :: "(real \<Rightarrow> real) \<Rightarrow> real list \<Rightarrow> real" where
  "sum_fl rd xs = foldl (\<lambda>a b. rd (a + b)) 0 xs"

definition pow2_fl :: "(real \<Rightarrow> real) \<Rightarrow> real \<Rightarrow> real" where
  "pow2_fl rd x = rd (x * x)"

definition sqrt_fl :: "(real \<Rightarrow> real) \<Rightarrow> real \<Rightarrow> real" where
  "sqrt_fl rd x = rd (sqrt x)"

text \<open>
  The mean, the sum of squared deviations
  \<^verbatim>\<open>xs.reduce((sum, val) => sum + Math.pow(val - mean, 2), 0)\<close> and the standard deviation,
  as \<^verbatim>\<open>removeOutliers\<close>, \<^verbatim>\<open>calculateRSquared\<close> and \<^verbatim>\<open>calculateStatistics\<close> compute them.
\<close>

definition mean_fl :: "(real \<Rightarrow> real) \<Rightarrow> real list \<Rightarrow> real" where
  "mean_fl rd xs = rd (sum_fl rd xs / real (length xs))"

definition sumSquares_fl :: "(real \<Rightarrow> real) \<Rightarrow> real list \<Rightarrow> real \<Rightarrow> real" where
  "sumSquares_fl rd xs mean = foldl (\<lambda>sum val. rd (sum + pow2_fl rd (rd (val - mean)))) 0 xs"


definition trapezoidalIntegration_fl :: "(real \<Rightarrow> real) \<Rightarrow> SpectralDataPoint list \<Rightarrow> real" where
  "trapezoidalIntegration_fl rd data =
     foldl (\<lambda>area' i.
              (let dx = rd (wavelength (data ! i) - wavelength (data ! (i - 1)));
                   avgY = rd (rd (intensity (data ! i) + intensity (data ! (i - 1))) / 2)
               in rd (area' + rd (dx * avgY))))
       0 [1..<length data]"

definition normalizeSpectrum_fl ::
  "(real \<Rightarrow> real) \<Rightarrow> SpectralDataPoint list \<Rightarrow> norm_method \<Rightarrow> SpectralDataPoint list" where
  "normalizeSpectrum_fl rd data method =
     (if length data = 0 then data
      else if method = NormMax
      then (let maxIntensity = Math_max (map intensity data)
            in if maxIntensity = 0 then data
               else map (\<lambda>d. \<lparr>wavelength = wavelength d,
                               intensity = rd (intensity d / maxIntensity)\<rparr>) data)
      else (let area' = trapezoidalIntegration_fl rd data
            in if area' = 0 then data
               else map (\<lambda>d. \<lparr>wavelength = wavelength d,
                               intensity = rd (intensity d / area')\<rparr>) data))"

definition removeOutliers_fl ::
  "(real \<Rightarrow> real) \<Rightarrow> SpectralDataPoint list \<Rightarrow> real \<Rightarrow> SpectralDataPoint list" where
  "removeOutliers_fl rd data threshold' =
     (if length data = 0 then data
      else (let intensities = map intensity data;
                mean = rd (sum_fl rd intensities / real (length intensities));
                variance = rd (sumSquares_fl rd intensities mean / real (length intensities));
                std = sqrt_fl rd variance
            in if std = 0 then data
               else filter (\<lambda>d. \<bar>rd (intensity d - mean)\<bar> \<le> rd (threshold' * std)) data))"

definition calculateRSquared_fl :: "(real \<Rightarrow> real) \<Rightarrow> real list \<Rightarrow> real list \<Rightarrow> real option" where
  "calculateRSquared_fl rd observed predicted =
     (if length observed = 0 then Some 0
      else (let mean = rd (sum_fl rd observed / real (length observed));
                ssTotal = sumSquares_fl rd observed mean;
                ssResidual = foldl (\<lambda>sum i. rd (sum + pow2_fl rd (rd (observed ! i - predicted ! i))))
                               0 [0..<length observed]
            in if ssTotal = 0 then Some 0
               else if length predicted < length observed then None
               else Some (rd (1 - rd (ssResidual / ssTotal)))))"

definition calculateRMSE_fl :: "(real \<Rightarrow> real) \<Rightarrow> real list \<Rightarrow> real list \<Rightarrow> real option" where
  "calculateRMSE_fl rd observed predicted =
     (if length observed = 0 then Some 0
      else if length predicted < length observed then None
      else (let mse = rd (foldl (\<lambda>sum i. rd (sum + pow2_fl rd (rd (observed ! i - predicted ! i))))
                            0 [0..<length observed]
                          / real (length observed))
            in Some (sqrt_fl rd mse)))"

text \<open>
  \<^verbatim>\<open>normalizeSpectrum\<close> and \<^verbatim>\<open>calculateRSquared\<close> of \<^verbatim>\<open>src/utils/scientific.ts\<close>, the
  two functions whose counterparts test a computed value against 0. This copy divides
  whatever the value of the divisor is.
\<close>

definition normalizeSpectrum_ts_fl ::
  "(real \<Rightarrow> real) \<Rightarrow> SpectralDataPoint list \<Rightarrow> norm_method \<Rightarrow> SpectralDataPoint list option" where
  "normalizeSpectrum_ts_fl rd data method =
     (if method = NormMax
      then (let maxIntensity = Math_max (map intensity data)
            in those (map (\<lambda>d. if maxIntensity = 0 then None
                                else Some \<lparr>wavelength = wavelength d,
                                           intensity = rd (intensity d / maxIntensity)\<rparr>) data))
      else (let area' = trapezoidalIntegration_fl rd data
            in those (map (\<lambda>d. if area' = 0 then None
                                else Some \<lparr>wavelength = wavelength d,
                                           intensity = rd (intensity d / area')\<rparr>) data)))"

definition calculateRSquared_ts_fl :: "(real \<Rightarrow> real) \<Rightarrow> real list \<Rightarrow> real list \<Rightarrow> real option" where
  "calculateRSquared_ts_fl rd observed predicted =
     (let mean = rd (sum_fl rd observed / real (length observed));
          ssTotal = sumSquares_fl rd observed mean;
          ssResidual = foldl (\<lambda>sum i. rd (sum + pow2_fl rd (rd (observed ! i - predicted ! i))))
                         0 [0..<length observed]
      in if ssTotal = 0 then None
         else if length predicted < length observed then None
         else Some (rd (1 - rd (ssResidual / ssTotal))))"

section \<open>Population statistics as the specification words them\<close>

definition populationMean :: "real list \<Rightarrow> real" where
  "populationMean xs = sum_list xs / real (length xs)"

definition populationStd :: "real list \<Rightarrow> real" where
  "populationStd xs = sqrt ((\<Sum>x\<leftarrow>xs. (x - populationMean xs)\<^sup>2) / real (length xs))"

section \<open>Rounding to the nearest double\<close>

text \<open>
  For a number whose mantissa, scaled by \<open>2 ^ m\<close>, lies between \<open>2 ^ 52\<close> and \<open>2 ^ 53\<close>,
  \<open>rd64\<close> rounds the scaled number to an integer. This evaluates \<open>rd64\<close> on a given
  rational number.
\<close>

lemma rd64_eval:
  assumes "(2::real) ^ 52 \<le> \<bar>x\<bar> * 2 ^ m" and "\<bar>x\<bar> * 2 ^ m < 2 ^ 53" and "m \<le> 1074"
  shows "rd64 x = of_int (round_half_even (x * 2 ^ m)) / 2 ^ m"
proof -
  from assms(1) have x0: "x \<noteq> 0" by auto
  have pw: "(2::real) powr of_int (52 - int m) = 2 ^ 52 / 2 ^ m"
  proof -
    have "(2::real) powr of_int (52 - int m) = 2 powr (52 - real m)" by simp
    also have "\<dots> = 2 powr 52 / 2 powr real m" by (rule powr_diff)
    also have "\<dots> = 2 ^ 52 / 2 ^ m"
      by (simp only: powr_realpow powr_numeral zero_less_numeral zero_le_numeral)
    finally show ?thesis .
  qed
  have pw': "(2::real) powr of_int (52 - int m + 1) = 2 ^ 53 / 2 ^ m"
  proof -
    have "(2::real) powr of_int (52 - int m + 1) = 2 powr (of_int (52 - int m) + 1)"
      by (simp only: of_int_add of_int_1)
    also have "\<dots> = 2 powr of_int (52 - int m) * 2 powr 1"
      by (rule powr_add)
    also have "\<dots> = 2 ^ 52 / 2 ^ m * 2" by (simp only: pw powr_one zero_le_numeral)
    also have "\<dots> = 2 ^ 53 / 2 ^ m" by simp
    finally show ?thesis .
  qed
  have lo: "(2::real) ^ 52 / 2 ^ m \<le> \<bar>x\<bar>"
    using assms(1) by (simp add: pos_divide_le_eq)
  have hi: "\<bar>x\<bar> < (2::real) ^ 53 / 2 ^ m"
    using assms(2) by (simp add: pos_less_divide_eq)
  have bounds: "2 powr of_int (52 - int m) \<le> \<bar>x\<bar> \<and> \<bar>x\<bar> < 2 powr of_int (52 - int m + 1)"
    using lo hi by (simp only: pw pw')
  have "0 < \<bar>x\<bar>" using x0 by simp
  then have "\<lfloor>log 2 \<bar>x\<bar>\<rfloor> = 52 - int m"
    by (rule floor_log_eq_powr_iff [THEN iffD2, OF _ _ bounds]) simp
  moreover have "- 1022 \<le> 52 - int m" using assms(3) by simp
  ultimately have e: "max \<lfloor>log 2 \<bar>x\<bar>\<rfloor> (- 1022) = 52 - int m" by simp
  have u: "(2::real) powr of_int (52 - int m - 52) = 1 / 2 ^ m"
  proof -
    have "(2::real) powr of_int (52 - int m - 52) = 2 powr (- real m)" by simp
    also have "\<dots> = 1 / 2 powr real m" by (rule powr_minus_divide)
    also have "\<dots> = 1 / 2 ^ m" by (simp only: powr_realpow zero_less_numeral)
    finally show ?thesis .
  qed
  show ?thesis
    using x0 by (simp only: rd64_def e u Let_def if_False) simp
qed

lemmas rd64_steps = rd64_eval [where m = 51] rd64_eval [where m = 52] rd64_eval [where m = 53]
  rd64_eval [where m = 54] rd64_eval [where m = 55] rd64_eval [where m = 56]
  rd64_eval [where m = 57] rd64_eval [where m = 58] rd64_eval [where m = 59]
  rd64_eval [where m = 108] rd64_eval [where m = 109] rd64_eval [where m = 163]
  rd64_eval [where m = 164]

lemma rd64_0: "rd64 0 = 0"
  by (simp add: rd64_def)

lemma rd64_1: "rd64 1 = 1"
  by (simp add: rd64_eval [where m = 52] round_half_even_def Let_def)




text \<open>Without rounding the definitions in double precision are the exact ones.\<close>

lemma foldl_plus_sum_list:
  fixes f :: "'a \<Rightarrow> real"
  shows "foldl (\<lambda>a x. a + f x) s xs = s + sum_list (map f xs)"
  by (induction xs arbitrary: s) simp_all

lemma sum_fl_exact: "sum_fl (\<lambda>x. x) xs = sum_list xs"
  using foldl_plus_sum_list [of "\<lambda>x. x" 0 xs] by (simp add: sum_fl_def)

lemma sumSquares_fl_exact: "sumSquares_fl (\<lambda>x. x) xs m = (\<Sum>val\<leftarrow>xs. (val - m)\<^sup>2)"
  using foldl_plus_sum_list [of "\<lambda>val. (val - m)\<^sup>2" 0 xs]
  by (simp add: sumSquares_fl_def pow2_fl_def power2_eq_square)

lemma trapezoidalIntegration_fl_exact:
  "trapezoidalIntegration_fl (\<lambda>x. x) data = trapezoidalIntegration data"
  by (simp add: trapezoidalIntegration_fl_def trapezoidalIntegration_def Let_def
      foldl_plus_sum_list)

lemma normalizeSpectrum_fl_exact:
  "normalizeSpectrum_fl (\<lambda>x. x) data m = normalizeSpectrum data m"
  by (simp add: normalizeSpectrum_fl_def normalizeSpectrum_def trapezoidalIntegration_fl_exact)

lemma removeOutliers_fl_exact:
  "removeOutliers_fl (\<lambda>x. x) data t = removeOutliers data t"
  by (simp add: removeOutliers_fl_def removeOutliers_def sum_fl_exact sumSquares_fl_exact
      sqrt_fl_def Let_def)

lemma ssResidual_fl_exact:
  "foldl (\<lambda>sum i. sum + pow2_fl (\<lambda>x. x) (observed ! i - predicted ! i)) 0 [0..<n]
     = (\<Sum>i\<leftarrow>[0..<n]. (observed ! i - predicted ! i)\<^sup>2)"
  using foldl_plus_sum_list [of "\<lambda>i. (observed ! i - predicted ! i)\<^sup>2" 0 "[0..<n]"]
  by (simp add: pow2_fl_def power2_eq_square)

lemma calculateRSquared_fl_exact:
  "calculateRSquared_fl (\<lambda>x. x) observed predicted = calculateRSquared observed predicted"
  by (simp add: calculateRSquared_fl_def calculateRSquared_def sum_fl_exact sumSquares_fl_exact
      ssResidual_fl_exact Let_def)

lemma calculateRMSE_fl_exact:
  "calculateRMSE_fl (\<lambda>x. x) observed predicted = calculateRMSE observed predicted"
  by (simp add: calculateRMSE_fl_def calculateRMSE_def ssResidual_fl_exact sqrt_fl_def Let_def)

section \<open>Peak detection: the end-to-end scenario and the empty cases\<close>

lemmas detect_unfold = detectPeaks_def peakAt_def List.map_filter_def calculateFWHM_def
  calculatePeakArea_def trapezoidalIntegration_def walkLeft.simps walkRight.simps Let_def

lemma upt_small: "[1..<4] = [1, 2, 3]" "[1..<5] = [1, 2, 3, 4]"
  by (simp_all add: upt_rec)

lemma scenario_peaks:
  "detectPeaks scenario (1/10) (1/20) =
     [\<lparr>position = 504, amplitude = 9/10, fwhm = 4, area = 16/5, prominence = 3/5\<rparr>]"
  by (simp add: scenario_def detect_unfold upt_small)

text \<open>
  Claim C1, as the specification states it: on the scenario spectrum with
  \<open>min_height = 0.05\<close> and prominence threshold \<open>0.1\<close>, \<open>detectPeaks\<close> returns exactly one
  peak with position 504, amplitude 0.9, FWHM 8 and prominence 0.6. The code does not
  do that: the walk to the left stops at index 1 already, because the intensity 0.3
  there is not above the half maximum 0.45, and likewise to the right at index 3.
  The FWHM is \<open>506 - 502 = 4\<close>.
\<close>

theorem detectPeaks_scenario_not_fwhm_8:
  "\<not> (length (detectPeaks scenario (1/10) (1/20)) = 1
      \<and> position (hd (detectPeaks scenario (1/10) (1/20))) = 504
      \<and> amplitude (hd (detectPeaks scenario (1/10) (1/20))) = 9/10
      \<and> fwhm (hd (detectPeaks scenario (1/10) (1/20))) = 8
      \<and> prominence (hd (detectPeaks scenario (1/10) (1/20))) = 6/10)"
  by (simp add: scenario_peaks)

text \<open>
  Claim C1, amended: on the scenario spectrum with \<open>min_height = 0.05\<close> and prominence
  threshold \<open>0.1\<close>, \<open>detectPeaks\<close> returns exactly one peak, with position 504,
  amplitude 0.9 and FWHM 4 (the half-maximum walk ends at the wavelengths 502 and 506);
  its prominence is the difference \<open>0.9 - 0.3\<close>, which passes the threshold and is 0.6
  up to the rounding of that one subtraction (it lies within \<open>10 ^ (-15)\<close> of 0.6).
\<close>

theorem detectPeaks_scenario:
  "length (detectPeaks scenario (1/10) (1/20)) = 1
   \<and> position (hd (detectPeaks scenario (1/10) (1/20))) = 504
   \<and> amplitude (hd (detectPeaks scenario (1/10) (1/20))) = 9/10
   \<and> fwhm (hd (detectPeaks scenario (1/10) (1/20))) = 4
   \<and> 1/10 \<le> prominence (hd (detectPeaks scenario (1/10) (1/20)))
   \<and> \<bar>prominence (hd (detectPeaks scenario (1/10) (1/20))) - 6/10\<bar> \<le> 1 / 10 ^ 15"
  by (simp add: scenario_peaks)

text \<open>
  In double arithmetic the subtraction \<open>0.9 - 0.3\<close> is a tie between two doubles and
  rounds to the one above the double 0.6, which is 0.6000000000000001; it passes the
  threshold and lies within the stated distance of 0.6.
\<close>

lemma prominence_in_doubles:
  "rd64 (dbl_0_9 - dbl_0_3) = 5404319552844596 / 9007199254740992"
  "rd64 (dbl_0_9 - dbl_0_3) \<noteq> dbl_0_6"
  "1/10 \<le> rd64 (dbl_0_9 - dbl_0_3)"
  "\<bar>rd64 (dbl_0_9 - dbl_0_3) - 6/10\<bar> \<le> 1 / 10 ^ 15"
  by (simp_all add: dbl_0_9_def dbl_0_3_def dbl_0_6_def rd64_steps round_half_even_def Let_def)

text \<open>
  Claim C3: on an empty spectrum \<open>calculateStatistics\<close> returns the all-zero record and
  \<open>detectPeaks\<close> returns no peak; \<open>detectPeaks\<close> also returns no peak on every spectrum
  with at most two points. Both functions are total here: no error value is involved.
\<close>

theorem empty_spectrum_safe:
  "calculateStatistics [] =
     \<lparr>mean_intensity = 0, std_intensity = 0, max_intensity = 0, min_intensity = 0,
      total_area = 0\<rparr>
   \<and> detectPeaks [] pr mh = []
   \<and> (length data \<le> 2 \<longrightarrow> detectPeaks data pr mh = [])"
  by (simp add: calculateStatistics_def detectPeaks_def List.map_filter_def)

theorem empty_spectrum_safe_witness:
  "length [\<lparr>wavelength = 500, intensity = 1\<rparr>, \<lparr>wavelength = 502, intensity = 3\<rparr>] \<le> 2
   \<and> detectPeaks [\<lparr>wavelength = 500, intensity = 1\<rparr>, \<lparr>wavelength = 502, intensity = 3\<rparr>] 0 0 = []"
  using empty_spectrum_safe
    [of 0 0 "[\<lparr>wavelength = 500, intensity = 1\<rparr>, \<lparr>wavelength = 502, intensity = 3\<rparr>]"]
  by simp

section \<open>Peak detection: width and position of every peak\<close>

lemma walkLeft_le: "walkLeft data h i \<le> i"
proof (induction data h i rule: walkLeft.induct)
  case (1 data halfMax leftIdx)
  show ?case
  proof (cases "leftIdx > 0 \<and> intensity (data ! leftIdx) > halfMax")
    case True
    with 1 have "walkLeft data halfMax (leftIdx - 1) \<le> leftIdx - 1" by simp
    with True show ?thesis by (subst walkLeft.simps) simp
  next
    case False
    then show ?thesis by (subst walkLeft.simps) auto
  qed
qed

lemma walkRight_bounds:
  "i \<le> walkRight data h i \<and> (i < length data \<longrightarrow> walkRight data h i < length data)"
proof (induction data h i rule: walkRight.induct)
  case (1 data halfMax rightIdx)
  show ?case
  proof (cases "rightIdx + 1 < length data \<and> intensity (data ! rightIdx) > halfMax")
    case True
    with 1 have "rightIdx + 1 \<le> walkRight data halfMax (rightIdx + 1)
        \<and> walkRight data halfMax (rightIdx + 1) < length data"
      by simp
    with True show ?thesis by (subst (1 2) walkRight.simps) simp
  next
    case False
    then show ?thesis by (subst (1 2) walkRight.simps) auto
  qed
qed

lemma calculateFWHM_nonneg:
  assumes "sorted (map wavelength data)" and "i < length data"
  shows "0 \<le> calculateFWHM data i"
proof -
  define l where "l = walkLeft data (intensity (data ! i) / 2) i"
  define r where "r = walkRight data (intensity (data ! i) / 2) i"
  have "l \<le> i" unfolding l_def by (rule walkLeft_le)
  moreover have "i \<le> r" "r < length data"
    unfolding r_def using walkRight_bounds [of i data] assms(2) by auto
  ultimately have "l \<le> r" "r < length (map wavelength data)" by simp_all
  with assms(1) have "map wavelength data ! l \<le> map wavelength data ! r"
    by (rule sorted_nth_mono)
  with \<open>l \<le> r\<close> \<open>r < length data\<close> have "wavelength (data ! l) \<le> wavelength (data ! r)"
    by simp
  then show ?thesis
    by (simp add: calculateFWHM_def Let_def l_def r_def)
qed

lemma detectPeaks_origin:
  assumes "p \<in> set (detectPeaks data pr mh)"
  shows "\<exists>i. 1 \<le> i \<and> i + 1 < length data \<and> peakAt data mh i = Some p"
proof -
  from assms obtain i where "i \<in> set [1..<length data - 1]" "peakAt data mh i = Some p"
    by (auto simp: detectPeaks_def List.map_filter_def Let_def)
  then show ?thesis by (intro exI [of _ i]) auto
qed

lemma peakAt_fields:
  assumes "peakAt data mh i = Some p"
  shows "fwhm p = calculateFWHM data i" and "position p = wavelength (data ! i)"
  using assms by (auto simp: peakAt_def Let_def split: if_splits)

text \<open>
  Claim C7: for every spectrum sorted ascending by wavelength and any detection
  parameters, every peak that \<open>detectPeaks\<close> returns has a FWHM of at least 0 and a
  position between the smallest and the largest wavelength of the spectrum.
\<close>

theorem detectPeaks_fwhm_position:
  assumes "sorted (map wavelength data)" and "p \<in> set (detectPeaks data pr mh)"
  shows "0 \<le> fwhm p \<and> Min (wavelength ` set data) \<le> position p
         \<and> position p \<le> Max (wavelength ` set data)"
proof -
  from assms(2) obtain i where i: "i + 1 < length data" "peakAt data mh i = Some p"
    using detectPeaks_origin by blast
  then have il: "i < length data" by simp
  have "0 \<le> fwhm p"
    using calculateFWHM_nonneg [OF assms(1) il] peakAt_fields(1) [OF i(2)] by simp
  moreover have "wavelength (data ! i) \<in> wavelength ` set data"
    using il by simp
  then have "Min (wavelength ` set data) \<le> wavelength (data ! i)"
    and "wavelength (data ! i) \<le> Max (wavelength ` set data)"
    by simp_all
  ultimately show ?thesis
    using peakAt_fields(2) [OF i(2)] by simp
qed

theorem detectPeaks_fwhm_position_witness:
  "sorted (map wavelength scenario)
   \<and> \<lparr>position = 504, amplitude = 9/10, fwhm = 4, area = 16/5, prominence = 3/5\<rparr>
       \<in> set (detectPeaks scenario (1/10) (1/20))
   \<and> 0 \<le> fwhm \<lparr>position = 504, amplitude = 9/10, fwhm = 4, area = 16/5, prominence = 3/5\<rparr>
   \<and> Min (wavelength ` set scenario)
       \<le> position \<lparr>position = 504, amplitude = 9/10, fwhm = 4, area = 16/5, prominence = 3/5\<rparr>
   \<and> position \<lparr>position = 504, amplitude = 9/10, fwhm = 4, area = 16/5, prominence = 3/5\<rparr>
       \<le> Max (wavelength ` set scenario)"
proof -
  have h1: "sorted (map wavelength scenario)"
    by (simp add: scenario_def)
  have h2: "\<lparr>position = 504, amplitude = 9/10, fwhm = 4, area = 16/5, prominence = 3/5\<rparr>
              \<in> set (detectPeaks scenario (1/10) (1/20))"
    by (simp add: scenario_peaks)
  from detectPeaks_fwhm_position [OF h1 h2] h1 h2 show ?thesis by blast
qed

section \<open>Normalization\<close>

lemma trapezoidalIntegration_scale:
  "trapezoidalIntegration (map (\<lambda>d. \<lparr>wavelength = wavelength d, intensity = intensity d / a\<rparr>) data)
     = trapezoidalIntegration data / a"
proof -
  let ?g = "\<lambda>d. \<lparr>wavelength = wavelength d, intensity = intensity d / a\<rparr>"
  let ?f = "\<lambda>i. (wavelength (data ! i) - wavelength (data ! (i - 1))) *
        ((intensity (data ! i) + intensity (data ! (i - 1))) / 2)"
  have "map (\<lambda>i. (wavelength (map ?g data ! i) - wavelength (map ?g data ! (i - 1))) *
        ((intensity (map ?g data ! i) + intensity (map ?g data ! (i - 1))) / 2)) [1..<length data]
      = map (\<lambda>i. ?f i * inverse a) [1..<length data]"
  proof (rule map_cong [OF refl])
    fix i assume "i \<in> set [1..<length data]"
    then have "i < length data" "i - 1 < length data" by auto
    then have "map ?g data ! i = ?g (data ! i)" "map ?g data ! (i - 1) = ?g (data ! (i - 1))"
      by simp_all
    then show "(wavelength (map ?g data ! i) - wavelength (map ?g data ! (i - 1))) *
        ((intensity (map ?g data ! i) + intensity (map ?g data ! (i - 1))) / 2) = ?f i * inverse a"
      by (cases "a = 0") (simp_all add: field_simps)
  qed
  then have "trapezoidalIntegration (map ?g data) = (\<Sum>i\<leftarrow>[1..<length data]. ?f i * inverse a)"
    by (simp only: trapezoidalIntegration_def length_map)
  also have "\<dots> = (\<Sum>i\<leftarrow>[1..<length data]. ?f i) * inverse a"
    by (rule sum_list_mult_const)
  also have "\<dots> = trapezoidalIntegration data / a"
    by (simp only: trapezoidalIntegration_def divide_inverse [of _ a])
  finally show ?thesis .
qed

text \<open>In exact arithmetic the area of an area-normalized spectrum is 1.\<close>

lemma area_normalization_exact:
  assumes "trapezoidalIntegration_fl (\<lambda>x. x) data \<noteq> 0"
  shows "trapezoidalIntegration_fl (\<lambda>x. x) (normalizeSpectrum_fl (\<lambda>x. x) data NormArea) = 1"
proof -
  from assms have nz: "trapezoidalIntegration data \<noteq> 0"
    by (simp add: trapezoidalIntegration_fl_exact)
  then have "data \<noteq> []" by (auto simp: trapezoidalIntegration_def)
  with nz have "trapezoidalIntegration (normalizeSpectrum data NormArea) = 1"
    by (simp add: normalizeSpectrum_def Let_def trapezoidalIntegration_scale)
  then show ?thesis
    by (simp add: trapezoidalIntegration_fl_exact normalizeSpectrum_fl_exact)
qed

text \<open>The spectrum \<open>[(400, 0.6), (401, 0.2)]\<close> in double arithmetic.\<close>

lemma area_06_02:
  "trapezoidalIntegration_fl rd64
     [\<lparr>wavelength = 400, intensity = dbl_0_6\<rparr>, \<lparr>wavelength = 401, intensity = dbl_0_2\<rparr>]
   = 3602879701896397 / 9007199254740992"
  apply (simp add: trapezoidalIntegration_fl_def Let_def)
  apply (simp add: dbl_0_6_def dbl_0_2_def rd64_steps round_half_even_def Let_def)
  done

lemma divided_06_02:
  "map (\<lambda>d. \<lparr>wavelength = wavelength d,
             intensity = rd64 (intensity d / (3602879701896397 / 9007199254740992))\<rparr>)
     [\<lparr>wavelength = 400, intensity = dbl_0_6\<rparr>, \<lparr>wavelength = 401, intensity = dbl_0_2\<rparr>]
   = [\<lparr>wavelength = 400, intensity = 6755399441055743 / 4503599627370496\<rparr>,
      \<lparr>wavelength = 401, intensity = 1/2\<rparr>]"
  by (simp add: dbl_0_6_def dbl_0_2_def rd64_steps round_half_even_def Let_def)






section \<open>Outlier removal\<close>

lemma sum_squares_zero_iff:
  fixes xs :: "real list"
  shows "(\<Sum>x\<leftarrow>xs. (x - m)\<^sup>2) = 0 \<longleftrightarrow> (\<forall>x\<in>set xs. x = m)"
proof -
  have "(\<Sum>x\<leftarrow>xs. (x - m)\<^sup>2) = 0 \<longleftrightarrow> (\<forall>y\<in>set (map (\<lambda>x. (x - m)\<^sup>2) xs). y = 0)"
    by (rule sum_list_nonneg_eq_0_iff) auto
  then show ?thesis by auto
qed

lemma populationStd_zero_iff:
  assumes "xs \<noteq> []"
  shows "populationStd xs = 0 \<longleftrightarrow> (\<forall>x\<in>set xs. x = populationMean xs)"
  using assms by (simp add: populationStd_def sum_squares_zero_iff)

lemma sum_list_constant:
  fixes xs :: "real list"
  shows "(\<forall>x\<in>set xs. x = c) \<Longrightarrow> sum_list xs = real (length xs) * c"
  by (induction xs) (simp_all add: algebra_simps)

lemma removeOutliers_alt:
  "removeOutliers data t =
     (if data = [] then data
      else if populationStd (map intensity data) = 0 then data
      else filter (\<lambda>d. \<bar>intensity d - populationMean (map intensity data)\<bar>
                         \<le> t * populationStd (map intensity data)) data)"
  by (simp only: removeOutliers_def populationStd_def populationMean_def Let_def length_0_conv)

lemma removeOutliers_filter:
  "removeOutliers data t =
     filter (\<lambda>d. \<bar>intensity d - populationMean (map intensity data)\<bar>
                   \<le> t * populationStd (map intensity data)) data"
proof (cases "data \<noteq> [] \<and> populationStd (map intensity data) = 0")
  case True
  then have "\<forall>x\<in>set (map intensity data). x = populationMean (map intensity data)"
    using populationStd_zero_iff [of "map intensity data"] by simp
  then have "filter (\<lambda>d. \<bar>intensity d - populationMean (map intensity data)\<bar>
                   \<le> t * populationStd (map intensity data)) data = data"
    using True by (intro filter_True) simp
  moreover have "removeOutliers data t = data"
    using True by (simp add: removeOutliers_alt)
  ultimately show ?thesis by simp
next
  case False
  then show ?thesis
    by (auto simp: removeOutliers_alt)
qed

text \<open>
  In exact arithmetic \<open>removeOutliers\<close> is the filter by the population mean and the
  population standard deviation (\<open>removeOutliers_filter\<close>). The constant spectrum of three
  points of intensity 0.1 in double arithmetic: the sum \<open>0.1 + 0.1 + 0.1\<close> rounds up, the
  mean is the double above 0.1, and the computed standard deviation is \<open>2 ^ (-56)\<close>.
\<close>

lemma mean_constant:
  "mean_fl rd64 [dbl_0_1, dbl_0_1, dbl_0_1] = 7205759403792795 / 72057594037927936"
  apply (simp add: mean_fl_def sum_fl_def)
  apply (simp add: dbl_0_1_def rd64_steps round_half_even_def Let_def)
  done

lemma sumSquares_constant:
  "sumSquares_fl rd64 [dbl_0_1, dbl_0_1, dbl_0_1] (7205759403792795 / 72057594037927936)
     = 3 / 5192296858534827628530496329220096"
  apply (simp add: sumSquares_fl_def pow2_fl_def)
  apply (simp add: dbl_0_1_def rd64_steps round_half_even_def Let_def)
  done











section \<open>Goodness of fit of a perfect prediction\<close>

text \<open>
  Claim C4, as the specification states it: for every non-empty observed sequence and a
  predicted sequence equal to it, \<open>calculateRSquared\<close> returns 1 and \<open>calculateRMSE\<close>
  returns 0. The first part fails on a constant sequence: its total sum of squares is 0,
  and the function then returns 0.
\<close>

theorem calculateRSquared_constant_not_1: "calculateRSquared [1] [1] \<noteq> Some 1"
  by (simp add: calculateRSquared_def)

lemma ssTotal_zero_iff:
  fixes observed :: "real list"
  shows "(\<Sum>val\<leftarrow>observed. (val - sum_list observed / real (length observed))\<^sup>2) = 0
           \<longleftrightarrow> (\<forall>v\<in>set observed. v = hd observed)"
proof (cases "observed = []")
  case True
  then show ?thesis by simp
next
  case False
  let ?m = "sum_list observed / real (length observed)"
  from False have hd_in: "hd observed \<in> set observed" by simp
  show ?thesis
  proof
    assume "(\<Sum>val\<leftarrow>observed. (val - ?m)\<^sup>2) = 0"
    then have all: "\<forall>v\<in>set observed. v = ?m" by (simp only: sum_squares_zero_iff)
    with hd_in have "hd observed = ?m" by blast
    with all show "\<forall>v\<in>set observed. v = hd observed" by simp
  next
    assume c: "\<forall>v\<in>set observed. v = hd observed"
    then have "sum_list observed = real (length observed) * hd observed"
      by (rule sum_list_constant)
    with False have "?m = hd observed" by simp
    with c have "\<forall>v\<in>set observed. v = ?m" by simp
    then show "(\<Sum>val\<leftarrow>observed. (val - ?m)\<^sup>2) = 0" by (simp only: sum_squares_zero_iff)
  qed
qed

text \<open>
  In exact arithmetic the total sum of squares is 0 exactly for a constant sequence
  (\<open>ssTotal_zero_iff\<close>). In double arithmetic neither direction holds: the code tests the
  computed sum. With predicted equal to observed every residual is \<open>x - x = 0\<close>, whatever
  the rounding is.
\<close>

lemma ssResidual_fl_self:
  assumes "rd 0 = 0"
  shows "foldl (\<lambda>sum i. rd (sum + pow2_fl rd (rd (xs ! i - xs ! i)))) 0 ixs = 0"
    and "foldl (\<lambda>sum i. rd (sum + pow2_fl rd 0)) 0 ixs = 0"
  using assms by (induction ixs) (simp_all add: pow2_fl_def)

lemma calculateRMSE_fl_self:
  assumes "observed \<noteq> []" and "rd 0 = 0"
  shows "calculateRMSE_fl rd observed observed = Some 0"
  using assms by (simp add: calculateRMSE_fl_def ssResidual_fl_self sqrt_fl_def)

lemma calculateRSquared_fl_self:
  assumes "observed \<noteq> []" and "rd 0 = 0" and "rd 1 = 1"
  shows "calculateRSquared_fl rd observed observed
           = Some (if sumSquares_fl rd observed (mean_fl rd observed) = 0 then 0 else 1)"
  using assms
  by (simp add: calculateRSquared_fl_def ssResidual_fl_self mean_fl_def Let_def)

lemma sumSquares_1_2: "sumSquares_fl rd64 [1, 2] (mean_fl rd64 [1, 2]) = 1/2"
  apply (simp add: sumSquares_fl_def mean_fl_def sum_fl_def pow2_fl_def)
  apply (simp add: rd64_steps round_half_even_def Let_def)
  done

text \<open>
  Claim C4, amended: for every non-empty observed sequence and a predicted sequence equal
  to it, \<open>calculateRMSE\<close> returns exactly 0, and \<open>calculateRSquared\<close> returns exactly 1
  when the total sum of squares that the code computes is not 0, and 0 when it is 0; for a
  sequence of one element it is 0. The rounding is any function that leaves 0 and 1 as
  they are, as rounding to the nearest double does.
\<close>

theorem perfect_prediction:
  assumes "observed \<noteq> []" and "rd 0 = 0" and "rd 1 = 1"
  shows "calculateRMSE_fl rd observed observed = Some 0
         \<and> calculateRSquared_fl rd observed observed
             = Some (if sumSquares_fl rd observed (mean_fl rd observed) = 0 then 0 else 1)
         \<and> (length observed = 1 \<and> rd (hd observed) = hd observed
              \<longrightarrow> calculateRSquared_fl rd observed observed = Some 0)"
proof -
  have rmse: "calculateRMSE_fl rd observed observed = Some 0"
    using assms(1,2) by (rule calculateRMSE_fl_self)
  have r2: "calculateRSquared_fl rd observed observed
             = Some (if sumSquares_fl rd observed (mean_fl rd observed) = 0 then 0 else 1)"
    using assms by (rule calculateRSquared_fl_self)
  have "sumSquares_fl rd observed (mean_fl rd observed) = 0"
    if "length observed = 1 \<and> rd (hd observed) = hd observed"
  proof -
    from that obtain x where x: "observed = [x]" "rd x = x"
      by (cases observed) auto
    then show ?thesis
      using assms(2) by (simp add: sumSquares_fl_def mean_fl_def sum_fl_def pow2_fl_def)
  qed
  with rmse r2 show ?thesis by simp
qed

theorem perfect_prediction_witness:
  "[1, 2] \<noteq> ([] :: real list) \<and> rd64 0 = 0 \<and> rd64 1 = 1
   \<and> calculateRMSE_fl rd64 [1, 2] [1, 2] = Some 0
   \<and> calculateRSquared_fl rd64 [1, 2] [1, 2] = Some 1
   \<and> length [1 :: real] = 1 \<and> rd64 (hd [1]) = hd [1]
   \<and> calculateRSquared_fl rd64 [1] [1] = Some 0"
proof -
  have a: "[1, 2] \<noteq> ([] :: real list)" "[1] \<noteq> ([] :: real list)" by simp_all
  have b: "length [1 :: real] = 1 \<and> rd64 (hd [1]) = hd [1]" by (simp add: rd64_1)
  have c: "calculateRMSE_fl rd64 [1, 2] [1, 2] = Some 0"
    using perfect_prediction [OF a(1) rd64_0 rd64_1] by blast
  have "calculateRSquared_fl rd64 [1, 2] [1, 2]
          = Some (if sumSquares_fl rd64 [1, 2] (mean_fl rd64 [1, 2]) = 0 then 0 else 1)"
    using perfect_prediction [OF a(1) rd64_0 rd64_1] by blast
  then have d: "calculateRSquared_fl rd64 [1, 2] [1, 2] = Some 1"
    by (simp add: sumSquares_1_2)
  have e: "calculateRSquared_fl rd64 [1] [1] = Some 0"
    using b perfect_prediction [OF a(2) rd64_0 rd64_1] by blast
  from a b c d e show ?thesis by (simp add: rd64_0 rd64_1)
qed

text \<open>
  The constant sequence \<open>[0.1, 0.1, 0.1]\<close> in double arithmetic: the computed mean is the
  double above 0.1, the computed total sum of squares is not 0, and the result is 1.
\<close>

lemma calculateRSquared_constant_doubles:
  "calculateRSquared_fl rd64 [dbl_0_1, dbl_0_1, dbl_0_1] [dbl_0_1, dbl_0_1, dbl_0_1] = Some 1"
proof -
  have "[dbl_0_1, dbl_0_1, dbl_0_1] \<noteq> []" by simp
  then have "calculateRSquared_fl rd64 [dbl_0_1, dbl_0_1, dbl_0_1] [dbl_0_1, dbl_0_1, dbl_0_1]
      = Some (if sumSquares_fl rd64 [dbl_0_1, dbl_0_1, dbl_0_1]
                   (mean_fl rd64 [dbl_0_1, dbl_0_1, dbl_0_1]) = 0 then 0 else 1)"
    using rd64_0 rd64_1 by (rule calculateRSquared_fl_self)
  then show ?thesis by (simp add: mean_constant sumSquares_constant)
qed

section \<open>Zero width and the Voigt model\<close>

text \<open>
  The second utility module tests \<open>width === 0\<close> before it divides, in \<open>gaussian\<close> and in
  \<open>lorentzian\<close>, and returns 0.
\<close>

lemma zero_width_guarded: "gaussian x a c 0 = 0 \<and> lorentzian x a c 0 = 0"
  by (simp add: gaussian_def lorentzian_def)

text \<open>
  The functions of \<open>src/utils/scientific.ts\<close> do not test the width. At width 0 and
  \<open>x = center\<close> the quotient is \<open>0 / 0\<close> and the result is not a number.
\<close>

lemma zero_width_at_center: "gaussian_ts c a c 0 = None \<and> lorentzian_ts c a c 0 = None"
  by (simp add: gaussian_ts_def lorentzian_ts_def)

text \<open>
  Claim C9: for every \<open>x\<close>, amplitude and center, \<open>gaussian\<close> returns 0 when sigma is 0 and
  \<open>lorentzian\<close> returns 0 when the half width is 0, and no division by zero occurs. The
  second utility module does so; \<open>gaussian\<close> and \<open>lorentzian\<close> of \<open>src/utils/scientific.ts\<close>
  divide by the zero width: for \<open>x = 504\<close>, amplitude 0.9, center 504 and width 0 each of
  them returns a value that is not a number, where the functions of the second module
  return 0.
\<close>

theorem zero_width_unguarded:
  "gaussian_ts 504 (9/10) 504 0 = None \<and> lorentzian_ts 504 (9/10) 504 0 = None
   \<and> gaussian 504 (9/10) 504 0 = 0 \<and> lorentzian 504 (9/10) 504 0 = 0"
  by (simp add: gaussian_ts_def lorentzian_ts_def gaussian_def lorentzian_def)

text \<open>
  Claim C8: for every spectrum and every list of detected peaks, the Voigt model produces
  the fitted data of the Gaussian model: the Voigt branch computes
  \<open>fitGaussian data peaks\<close>. An analysis with the Voigt model differs from the one with
  the Gaussian model in the recorded model name only.
\<close>

theorem voigt_is_gaussian:
  "fitCurve Voigt data ps = fitGaussian data ps
   \<and> fitCurve Voigt data ps = fitCurve Gaussian data ps
   \<and> handleAnalyze data pr mh Voigt =
       (case handleAnalyze data pr mh Gaussian of
          Analysed r st \<Rightarrow> Analysed (r\<lparr>model := Voigt\<rparr>) st
        | other \<Rightarrow> other)"
  by (simp add: fitCurve_def handleAnalyze_def Let_def)

section \<open>The preprocessing pipeline\<close>

text \<open>
  Claim C2: \<open>preprocessSpectrum\<close> applies outlier removal, noise reduction, baseline
  correction and normalization in this order, each stage on the output of the one
  before (it is \<open>pipelineSpec\<close>); a stage whose sub-configuration is absent, and outlier
  removal that is not enabled, passes the spectrum through unchanged; and the baseline
  method \<open>als\<close> corrects nothing and is no error.
\<close>

theorem preprocessSpectrum_pipeline:
  "preprocessSpectrum data params = pipelineSpec params data
   \<and> (outlier_removal params = None \<longrightarrow> outlierStage params d = Some d)
   \<and> (outlier_removal params = Some oc \<and> \<not> enabled oc \<longrightarrow> outlierStage params d = Some d)
   \<and> (noise_reduction params = None \<longrightarrow> noiseStage params d = Some d)
   \<and> (baseline_correction params = None \<longrightarrow> baselineStage params d = Some d)
   \<and> (baseline_correction params = Some bc \<and> bc_method bc = Als \<longrightarrow>
        baselineStage params d = Some d)
   \<and> (normalization params = None \<longrightarrow> normalizationStage params d = Some d)
   \<and> (outlier_removal params = None \<and> noise_reduction params = None
        \<and> baseline_correction params = None \<and> normalization params = None
      \<longrightarrow> preprocessSpectrum data params = Some data)
   \<and> (\<not> enabled oc \<longrightarrow>
        preprocessSpectrum data (params\<lparr>outlier_removal := Some oc\<rparr>)
          = preprocessSpectrum data (params\<lparr>outlier_removal := None\<rparr>))
   \<and> (bc_method bc = Als \<longrightarrow>
        preprocessSpectrum data (params\<lparr>baseline_correction := Some bc\<rparr>)
          = preprocessSpectrum data (params\<lparr>baseline_correction := None\<rparr>))"
proof -
  have "preprocessSpectrum data params = pipelineSpec params data"
    unfolding preprocessSpectrum_def pipelineSpec_def outlierStage_def noiseStage_def
      baselineStage_def normalizationStage_def stage_def Let_def
    by (auto split: option.splits baseline_method.splits)
  moreover have "outlierStage params d = Some d"
    if "outlier_removal params = None \<or> (outlier_removal params = Some oc \<and> \<not> enabled oc)"
    using that by (auto simp: outlierStage_def stage_def)
  moreover have "noiseStage params d = Some d" if "noise_reduction params = None"
    using that by (simp add: noiseStage_def stage_def)
  moreover have "baselineStage params d = Some d"
    if "baseline_correction params = None
        \<or> (baseline_correction params = Some bc \<and> bc_method bc = Als)"
    using that by (auto simp: baselineStage_def stage_def)
  moreover have "normalizationStage params d = Some d" if "normalization params = None"
    using that by (simp add: normalizationStage_def stage_def)
  moreover have "preprocessSpectrum data params = Some data"
    if "outlier_removal params = None \<and> noise_reduction params = None
        \<and> baseline_correction params = None \<and> normalization params = None"
    using that by (simp add: preprocessSpectrum_def)
  moreover have "preprocessSpectrum data (params\<lparr>outlier_removal := Some oc\<rparr>)
          = preprocessSpectrum data (params\<lparr>outlier_removal := None\<rparr>)"
    if "\<not> enabled oc"
    using that by (simp add: preprocessSpectrum_def cong: option.case_cong)
  moreover have "preprocessSpectrum data (params\<lparr>baseline_correction := Some bc\<rparr>)
          = preprocessSpectrum data (params\<lparr>baseline_correction := None\<rparr>)"
    if "bc_method bc = Als"
    using that by (simp add: preprocessSpectrum_def cong: option.case_cong)
  ultimately show ?thesis
    by blast
qed

theorem preprocessSpectrum_pipeline_witness:
  "\<not> enabled \<lparr>enabled = False, threshold = 3\<rparr>
   \<and> bc_method \<lparr>bc_method = Als, polynomial_degree = None, als_lambda = None, als_p = None\<rparr>
       = Als
   \<and> preprocessSpectrum scenario
       \<lparr>noise_reduction = None,
        baseline_correction = Some \<lparr>bc_method = Als, polynomial_degree = None,
                                    als_lambda = None, als_p = None\<rparr>,
        normalization = None,
        outlier_removal = Some \<lparr>enabled = False, threshold = 3\<rparr>\<rparr>
     = Some scenario
   \<and> baselineStage
       \<lparr>noise_reduction = None,
        baseline_correction = Some \<lparr>bc_method = Als, polynomial_degree = None,
                                    als_lambda = None, als_p = None\<rparr>,
        normalization = None,
        outlier_removal = Some \<lparr>enabled = False, threshold = 3\<rparr>\<rparr> scenario
     = Some scenario
   \<and> outlierStage
       \<lparr>noise_reduction = None,
        baseline_correction = Some \<lparr>bc_method = Als, polynomial_degree = None,
                                    als_lambda = None, als_p = None\<rparr>,
        normalization = None,
        outlier_removal = Some \<lparr>enabled = False, threshold = 3\<rparr>\<rparr> scenario
     = Some scenario"
proof -
  let ?oc = "\<lparr>enabled = False, threshold = 3\<rparr>"
  let ?bc = "\<lparr>bc_method = Als, polynomial_degree = None, als_lambda = None, als_p = None\<rparr>"
  let ?none = "\<lparr>noise_reduction = None, baseline_correction = None, normalization = None,
                outlier_removal = None\<rparr>"
  let ?p1 = "?none\<lparr>baseline_correction := Some ?bc\<rparr>"
  let ?p2 = "\<lparr>noise_reduction = None, baseline_correction = Some ?bc, normalization = None,
              outlier_removal = Some ?oc\<rparr>"
  have a: "\<not> enabled ?oc" by simp
  have b: "bc_method ?bc = Als" by simp
  have c: "outlier_removal ?p2 = Some ?oc" "baseline_correction ?p2 = Some ?bc" by simp_all
  have s1: "preprocessSpectrum scenario (?p1\<lparr>outlier_removal := Some ?oc\<rparr>)
          = preprocessSpectrum scenario (?p1\<lparr>outlier_removal := None\<rparr>)"
    using a preprocessSpectrum_pipeline [of scenario ?p1 scenario ?oc ?bc] by blast
  have s2: "preprocessSpectrum scenario (?none\<lparr>baseline_correction := Some ?bc\<rparr>)
          = preprocessSpectrum scenario (?none\<lparr>baseline_correction := None\<rparr>)"
    using b preprocessSpectrum_pipeline [of scenario ?none scenario ?oc ?bc] by blast
  have n: "outlier_removal ?none = None \<and> noise_reduction ?none = None
        \<and> baseline_correction ?none = None \<and> normalization ?none = None" by simp
  have s3: "preprocessSpectrum scenario ?none = Some scenario"
    using n preprocessSpectrum_pipeline [of scenario ?none scenario ?oc ?bc] by blast
  have s4: "baselineStage ?p2 scenario = Some scenario" "outlierStage ?p2 scenario = Some scenario"
    using a b c preprocessSpectrum_pipeline [of scenario ?p2 scenario ?oc ?bc] by blast+
  from s1 s2 s3 s4 a b show ?thesis by simp
qed

section \<open>The two utility modules compared\<close>

lemma those_map_Some: "those (map (\<lambda>x. Some (g x)) xs) = Some (map g xs)"
  by (induction xs) simp_all

lemma those_map_None: "xs \<noteq> [] \<Longrightarrow> those (map (\<lambda>x. None) xs) = None"
  by (cases xs) simp_all

lemma those_map_the:
  "(\<forall>x\<in>set xs. f x \<noteq> None) \<Longrightarrow> those (map f xs) = Some (map (\<lambda>x. the (f x)) xs)"
  by (induction xs) auto

subsection \<open>Peak detection\<close>

lemma peakAt_ts_eq:
  assumes "intensity (data ! i) \<noteq> mh"
  shows "peakAt_ts data mh i = peakAt data mh i"
  using assms by (auto simp: peakAt_ts_def peakAt_def Let_def)

lemma detectPeaks_ts_eq:
  assumes "\<forall>d\<in>set data. intensity d \<noteq> mh"
  shows "detectPeaks_ts data pr mh = detectPeaks data pr mh"
proof -
  have "peakAt_ts data mh i = peakAt data mh i" if "i \<in> set [1..<length data - 1]" for i
  proof -
    from that have "i < length data" by auto
    with assms have "intensity (data ! i) \<noteq> mh" by simp
    then show ?thesis by (rule peakAt_ts_eq)
  qed
  then have "List.map_filter (peakAt_ts data mh) [1..<length data - 1]
           = List.map_filter (peakAt data mh) [1..<length data - 1]"
    unfolding List.map_filter_def
    by (intro map_cong filter_cong refl; simp del: upt.simps set_upt)
  then show ?thesis
    by (simp add: detectPeaks_ts_def detectPeaks_def)
qed

lemma detectPeaks_at_minHeight:
  "detectPeaks_ts scenario (1/10) (9/10) = []"
  "detectPeaks scenario (1/10) (9/10)
     = [\<lparr>position = 504, amplitude = 9/10, fwhm = 4, area = 16/5, prominence = 3/5\<rparr>]"
  by (simp_all add: scenario_def detect_unfold detectPeaks_ts_def peakAt_ts_def upt_small)

subsection \<open>Functions that differ by a guard only\<close>

text \<open>
  \<open>gaussian\<close>, \<open>lorentzian\<close>, \<open>normalizeSpectrum\<close>, \<open>calculateRSquared\<close>, \<open>calculateRMSE\<close> and
  \<open>calculateStatistics\<close> of the second module are those of \<open>src/utils/scientific.ts\<close>
  with a test in front. Where the function of \<open>src/utils/scientific.ts\<close> returns a result
  free of NaN and infinities, the guarded function returns the same: where the guard
  fires, the unguarded function has divided by zero, or the input is empty and both
  return the empty spectrum.
\<close>

lemma gaussian_ts_eq: "gaussian_ts x a c w = Some v \<Longrightarrow> gaussian x a c w = v"
  by (auto simp: gaussian_ts_def gaussian_def split: if_splits)

lemma lorentzian_ts_eq: "lorentzian_ts x a c w = Some v \<Longrightarrow> lorentzian x a c w = v"
  by (auto simp: lorentzian_ts_def lorentzian_def split: if_splits)

lemma normalizeSpectrum_ts_fl_eq:
  assumes "normalizeSpectrum_ts_fl rd data m = Some r"
  shows "normalizeSpectrum_fl rd data m = r"
proof (cases "data = []")
  case True
  with assms show ?thesis
    by (simp add: normalizeSpectrum_ts_fl_def normalizeSpectrum_fl_def Let_def split: if_splits)
next
  case False
  show ?thesis
  proof (cases m)
    case NormMax
    show ?thesis
    proof (cases "Math_max (map intensity data) = 0")
      case True
      with assms NormMax False show ?thesis
        by (simp add: normalizeSpectrum_ts_fl_def those_map_None)
    next
      case nz: False
      with assms NormMax False show ?thesis
        by (simp add: normalizeSpectrum_ts_fl_def normalizeSpectrum_fl_def those_map_Some)
    qed
  next
    case NormArea
    show ?thesis
    proof (cases "trapezoidalIntegration_fl rd data = 0")
      case True
      with assms NormArea False show ?thesis
        by (simp add: normalizeSpectrum_ts_fl_def those_map_None)
    next
      case nz: False
      with assms NormArea False show ?thesis
        by (simp add: normalizeSpectrum_ts_fl_def normalizeSpectrum_fl_def those_map_Some)
    qed
  qed
qed

lemma normalizeSpectrum_ts_fl_empty:
  "normalizeSpectrum_ts_fl rd [] m = Some [] \<and> normalizeSpectrum_fl rd [] m = []"
  by (simp add: normalizeSpectrum_ts_fl_def normalizeSpectrum_fl_def)

lemma calculateRSquared_ts_fl_eq:
  "calculateRSquared_ts_fl rd obs prd = Some v \<Longrightarrow> calculateRSquared_fl rd obs prd = Some v"
  by (auto simp: calculateRSquared_ts_fl_def calculateRSquared_fl_def sumSquares_fl_def Let_def
      split: if_splits)

lemma calculateRSquared_ts_fl_self:
  assumes "rd 0 = 0" and "rd 1 = 1" and "sumSquares_fl rd obs (mean_fl rd obs) \<noteq> 0"
  shows "calculateRSquared_ts_fl rd obs obs = Some 1"
  using assms by (simp add: calculateRSquared_ts_fl_def ssResidual_fl_self mean_fl_def Let_def)

lemma calculateRMSE_ts_eq:
  "calculateRMSE_ts obs prd = Some v \<Longrightarrow> calculateRMSE obs prd = Some v"
  by (auto simp: calculateRMSE_ts_def calculateRMSE_def Let_def split: if_splits)

lemma calculateStatistics_ts_eq:
  "calculateStatistics_ts data = Some st \<Longrightarrow> calculateStatistics data = st"
  by (auto simp: calculateStatistics_ts_def calculateStatistics_def Let_def split: if_splits)

subsection \<open>Noise reduction\<close>

lemma smoothAt_defined:
  assumes "0 \<le> hw" and "i < length data"
  shows "smoothAt data hw i \<noteq> None"
proof -
  have "(0::int) \<in> set (filter (\<lambda>j. int i + j \<ge> 0 \<and> int i + j < int (length data)) [- hw..hw])"
    using assms by simp
  then have "filter (\<lambda>j. int i + j \<ge> 0 \<and> int i + j < int (length data)) [- hw..hw] \<noteq> []"
    by (metis empty_iff list.set(1))
  then show ?thesis
    by (simp add: smoothAt_def Let_def)
qed

lemma smoothAt_interior:
  assumes "0 \<le> hw" and "hw \<le> int i" and "int i + hw < int (length data)"
  shows "smoothAt data hw i =
           Some ((\<Sum>j\<leftarrow>[- hw..hw]. intensity (data ! nat (int i + j))) / real (nat (2 * hw + 1)))"
proof -
  have "filter (\<lambda>j. int i + j \<ge> 0 \<and> int i + j < int (length data)) [- hw..hw] = [- hw..hw]"
    using assms by (intro filter_True) auto
  moreover have "length [- hw..hw] = nat (2 * hw + 1)"
    by simp
  moreover have "nat (2 * hw + 1) \<noteq> 0" using assms(1) by simp
  ultimately show ?thesis
    by (simp add: smoothAt_def Let_def)
qed

lemma js_slice_interior:
  assumes "0 \<le> hw" and "hw \<le> int i" and "int i + hw < int (length data)"
  shows "js_slice data (int i - hw) (int i + hw + 1) = map (\<lambda>j. data ! nat (int i + j)) [- hw..hw]"
proof -
  have sl: "js_slice data (int i - hw) (int i + hw + 1)
              = take (nat (2 * hw + 1)) (drop (nat (int i - hw)) data)"
    using assms by (simp add: js_slice_def Let_def min_def)
  show ?thesis
  proof (rule nth_equalityI)
    show len: "length (js_slice data (int i - hw) (int i + hw + 1))
            = length (map (\<lambda>j. data ! nat (int i + j)) [- hw..hw])"
    proof -
      have "nat (2 * hw + 1) \<le> length data - nat (int i - hw)"
        using assms by linarith
      then show ?thesis by (simp add: sl)
    qed
    fix k assume "k < length (js_slice data (int i - hw) (int i + hw + 1))"
    then have k: "k < nat (2 * hw + 1)" using len by simp
    then have "[- hw..hw] ! k = - hw + int k"
      by (intro nth_upto) linarith
    moreover have "nat (int i - hw) + k = nat (int i + (- hw + int k))"
      using assms by linarith
    moreover have "nat (int i - hw) + k < length data" using assms k by linarith
    ultimately show "js_slice data (int i - hw) (int i + hw + 1) ! k
            = map (\<lambda>j. data ! nat (int i + j)) [- hw..hw] ! k"
      using k by (simp add: sl)
  qed
qed

lemma savitzkyGolayFilter_interior:
  assumes "0 \<le> w"
  defines "hw \<equiv> (if w mod 2 = 0 then w + 1 else w) div 2"
  shows "\<exists>r r'. savitzkyGolayFilter_ts data w ord = Some r
               \<and> savitzkyGolayFilter data w ord = Some r'
               \<and> length r = length data \<and> length r' = length data
               \<and> (\<forall>i. hw \<le> int i \<and> int i + hw < int (length data) \<longrightarrow> r ! i = r' ! i)"
proof -
  have hw0: "0 \<le> hw" using assms(1) by (simp add: hw_def)
  let ?new = "\<lambda>i. map_option (\<lambda>v. \<lparr>wavelength = wavelength (data ! i), intensity = v\<rparr>)
                     (smoothAt data hw i)"
  let ?old = "\<lambda>i. if int i < hw \<or> int i \<ge> int (length data) - hw
                  then Some (data ! i)
                  else (let window = js_slice data (int i - hw) (int i + hw + 1);
                            smoothed = polynomialSmooth (map intensity window) ord
                        in if 0 \<le> hw \<and> nat hw < length smoothed
                           then Some \<lparr>wavelength = wavelength (data ! i),
                                      intensity = smoothed ! nat hw\<rparr>
                           else None)"
  have old_interior: "?old i = ?new i"
    if "hw \<le> int i" "int i + hw < int (length data)" for i
  proof -
    have "nat hw < nat (2 * hw + 1)" using hw0 by linarith
    then show ?thesis
      using that hw0
      by (simp add: js_slice_interior smoothAt_interior polynomialSmooth_def Let_def comp_def)
  qed
  have new_def: "\<forall>i\<in>set [0..<length data]. ?new i \<noteq> None"
    using smoothAt_defined [OF hw0] by simp
  have old_def: "\<forall>i\<in>set [0..<length data]. ?old i \<noteq> None"
  proof
    fix i assume i: "i \<in> set [0..<length data]"
    show "?old i \<noteq> None"
    proof (cases "int i < hw \<or> int i \<ge> int (length data) - hw")
      case True
      then show ?thesis by simp
    next
      case False
      then have "?old i = ?new i" by (intro old_interior) linarith+
      with new_def i show ?thesis by metis
    qed
  qed
  have r: "savitzkyGolayFilter_ts data w ord = Some (map (\<lambda>i. the (?old i)) [0..<length data])"
    unfolding savitzkyGolayFilter_ts_def Let_def hw_def [symmetric]
    by (rule those_map_the [OF old_def [unfolded Let_def]])
  have r': "savitzkyGolayFilter data w ord = Some (map (\<lambda>i. the (?new i)) [0..<length data])"
    unfolding savitzkyGolayFilter_def Let_def hw_def [symmetric]
    by (rule those_map_the [OF new_def])
  have "map (\<lambda>i. the (?old i)) [0..<length data] ! i = map (\<lambda>i. the (?new i)) [0..<length data] ! i"
    if "hw \<le> int i \<and> int i + hw < int (length data)" for i
  proof -
    from that hw0 have "i < length data - 0" by linarith
    then have nth: "map F [0..<length data] ! i = F (0 + i)" for F :: "nat \<Rightarrow> SpectralDataPoint"
      by (rule nth_map_upt)
    from that have "?old i = ?new i" by (intro old_interior) simp_all
    then have "the (?old (0 + i)) = the (?new (0 + i))" by (simp only: add_0)
    then show ?thesis by (simp only: nth)
  qed
  with r r' show ?thesis by auto
qed

lemma savitzkyGolayFilter_edges_differ:
  "savitzkyGolayFilter_ts scenario 3 2 \<noteq> savitzkyGolayFilter scenario 3 2"
  by (simp add: savitzkyGolayFilter_ts_def savitzkyGolayFilter_def smoothAt_def scenario_def
      js_slice_def polynomialSmooth_def Let_def upt_rec [of 0] upt_rec [of 1] upt_rec [of 2]
      upt_rec [of 3] upt_rec [of 4] upt_rec [of 5] upto_rec1)

subsection \<open>Baseline correction\<close>

lemma gaussianElimination_1:
  "gaussianElimination [[a]] [b] = (if a = 0 then None else Some [b / a])"
  by (simp add: gaussianElimination_def eliminationStep_def pivotRow_def swapRows_def
      backSubstitution_def Let_def)

lemma polyfit_degree_0:
  "polyfit x y 0 = (if x = [] then None else Some [(\<Sum>i\<leftarrow>[0..<length x]. y ! i) / real (length x)])"
  by (simp add: polyfit_def Let_def gaussianElimination_1 sum_list_triv)

lemma sum_nth_upt:
  fixes ys :: "real list"
  shows "(\<Sum>i\<leftarrow>[0..<length ys]. ys ! i) = sum_list ys"
  by (simp add: map_nth)

lemma polynomialBaselineCorrection_ts_degree_0:
  "polynomialBaselineCorrection_ts data 0 = polynomialBaselineCorrection data 0"
proof (cases "data = []")
  case True
  then show ?thesis
    by (simp add: polynomialBaselineCorrection_ts_def polynomialBaselineCorrection_def
        polyfit_ts_def)
next
  case False
  have "(\<Sum>i\<leftarrow>[0..<length data]. map intensity data ! i) = sum_list (map intensity data)"
    using sum_nth_upt [of "map intensity data"] by simp
  with False show ?thesis
    by (simp add: polynomialBaselineCorrection_ts_def polynomialBaselineCorrection_def
        polyfit_ts_def polyfit_degree_0 Let_def)
qed

lemma polynomialBaselineCorrection_degree_1_differs:
  "polynomialBaselineCorrection_ts
     [\<lparr>wavelength = 500, intensity = 0\<rparr>, \<lparr>wavelength = 501, intensity = 1\<rparr>,
      \<lparr>wavelength = 502, intensity = 2\<rparr>] 1
   \<noteq> polynomialBaselineCorrection
     [\<lparr>wavelength = 500, intensity = 0\<rparr>, \<lparr>wavelength = 501, intensity = 1\<rparr>,
      \<lparr>wavelength = 502, intensity = 2\<rparr>] 1"
proof -
  have upt3: "[0..<3] = [0, 1, 2]" "[0..<2] = [0, 1]" "[1..<2] = [1]" "[2..<2] = []"
    by (simp_all add: upt_rec)
  show ?thesis
    by (simp add: polynomialBaselineCorrection_ts_def polynomialBaselineCorrection_def
        polyfit_ts_def polyfit_def gaussianElimination_def eliminationStep_def pivotRow_def
        swapRows_def eliminateRow_def backSubstitution_def Let_def upt3)
qed

subsection \<open>The claim of equality\<close>

text \<open>
  Claim C10, as stated: every function of \<^verbatim>\<open>src/utils/scientific.ts\<close> returns the same
  result as the function of the same name in the second utility module. This fails for
  \<open>detectPeaks\<close>: on the scenario spectrum with the height threshold at the intensity of
  the peak, 0.9, the strict test of \<^verbatim>\<open>scientific.ts\<close> rejects the peak and the test
  \<open>\<ge>\<close> of the second module keeps it.
\<close>

theorem detectPeaks_modules_differ:
  "detectPeaks_ts scenario (1/10) (9/10) \<noteq> detectPeaks scenario (1/10) (9/10)"
  by (simp add: detectPeaks_at_minHeight)

text \<open>
  Claim C10, amended: the two utility modules agree as follows. \<open>detectPeaks\<close> returns the
  same peaks whenever no intensity of the spectrum equals \<open>minHeight\<close>. Whenever
  \<open>gaussian\<close>, \<open>lorentzian\<close>, \<open>normalizeSpectrum\<close>, \<open>calculateRSquared\<close>, \<open>calculateRMSE\<close> or
  \<open>calculateStatistics\<close> of \<open>src/utils/scientific.ts\<close> returns a result free of NaN and
  infinities, the function of the second module returns the same result; this holds for
  \<open>normalizeSpectrum\<close> and \<open>calculateRSquared\<close> whatever the rounding is, and covers
  \<open>gaussian\<close> and \<open>lorentzian\<close> at width 0 with \<open>x\<close> other than the center, and
  \<open>normalizeSpectrum\<close> on the empty spectrum. For a window length of at least 0 both
  \<open>savitzkyGolayFilter\<close> return a spectrum of the length of the input and agree at every
  index with a full window around it. \<open>polynomialBaselineCorrection\<close>, with its \<open>polyfit\<close>,
  agrees for degree 0.
\<close>

theorem modules_agree_on_common_domain:
  "((\<forall>d\<in>set data. intensity d \<noteq> mh) \<longrightarrow> detectPeaks_ts data pr mh = detectPeaks data pr mh)
   \<and> (gaussian_ts x a c w = Some gv \<longrightarrow> gaussian x a c w = gv)
   \<and> (lorentzian_ts x a c w = Some lv \<longrightarrow> lorentzian x a c w = lv)
   \<and> (normalizeSpectrum_ts_fl rd data m = Some r \<longrightarrow> normalizeSpectrum_fl rd data m = r)
   \<and> (calculateRSquared_ts_fl rd obs prd = Some rv \<longrightarrow>
        calculateRSquared_fl rd obs prd = Some rv)
   \<and> (calculateRMSE_ts obs prd = Some ev \<longrightarrow> calculateRMSE obs prd = Some ev)
   \<and> (calculateStatistics_ts data = Some st \<longrightarrow> calculateStatistics data = st)
   \<and> (0 \<le> wl \<longrightarrow>
        (\<exists>r r'. savitzkyGolayFilter_ts data wl po = Some r
               \<and> savitzkyGolayFilter data wl po = Some r'
               \<and> length r = length data \<and> length r' = length data
               \<and> (\<forall>i. (if wl mod 2 = 0 then wl + 1 else wl) div 2 \<le> int i
                      \<and> int i + (if wl mod 2 = 0 then wl + 1 else wl) div 2 < int (length data)
                    \<longrightarrow> r ! i = r' ! i)))
   \<and> polynomialBaselineCorrection_ts data 0 = polynomialBaselineCorrection data 0"
  using detectPeaks_ts_eq [of data mh pr] gaussian_ts_eq [of x a c w gv]
    lorentzian_ts_eq [of x a c w lv] normalizeSpectrum_ts_fl_eq [of rd data m r]
    calculateRSquared_ts_fl_eq [of rd obs prd rv] calculateRMSE_ts_eq [of obs prd ev]
    calculateStatistics_ts_eq [of data st] savitzkyGolayFilter_interior [of wl data po]
    polynomialBaselineCorrection_ts_degree_0 [of data]
  by blast

theorem modules_agree_on_common_domain_witness:
  "1/20 \<notin> set (map intensity scenario)
   \<and> detectPeaks_ts scenario (1/10) (1/20) = detectPeaks scenario (1/10) (1/20)
   \<and> gaussian_ts 504 1 500 0 = Some 0 \<and> gaussian 504 1 500 0 = 0
   \<and> lorentzian_ts 504 1 500 0 = Some 0 \<and> lorentzian 504 1 500 0 = 0
   \<and> normalizeSpectrum_ts_fl rd64
         [\<lparr>wavelength = 400, intensity = dbl_0_6\<rparr>, \<lparr>wavelength = 401, intensity = dbl_0_2\<rparr>]
         NormArea
       = Some [\<lparr>wavelength = 400, intensity = 6755399441055743 / 4503599627370496\<rparr>,
               \<lparr>wavelength = 401, intensity = 1/2\<rparr>]
   \<and> normalizeSpectrum_fl rd64
         [\<lparr>wavelength = 400, intensity = dbl_0_6\<rparr>, \<lparr>wavelength = 401, intensity = dbl_0_2\<rparr>]
         NormArea
       = [\<lparr>wavelength = 400, intensity = 6755399441055743 / 4503599627370496\<rparr>,
          \<lparr>wavelength = 401, intensity = 1/2\<rparr>]
   \<and> calculateRSquared_ts_fl rd64 [1, 2] [1, 2] = Some 1
   \<and> calculateRSquared_fl rd64 [1, 2] [1, 2] = Some 1
   \<and> calculateRMSE_ts [1, 2] [1, 2] = Some 0
   \<and> calculateRMSE [1, 2] [1, 2] = Some 0
   \<and> calculateStatistics_ts scenario = Some (calculateStatistics scenario)
   \<and> (0::int) \<le> 3
   \<and> (\<exists>r r'. savitzkyGolayFilter_ts scenario 3 2 = Some r
              \<and> savitzkyGolayFilter scenario 3 2 = Some r'
              \<and> length r = length scenario \<and> length r' = length scenario)"
proof -
  let ?d = "[\<lparr>wavelength = 400, intensity = dbl_0_6\<rparr>, \<lparr>wavelength = 401, intensity = dbl_0_2\<rparr>]"
  let ?n = "[\<lparr>wavelength = 400, intensity = 6755399441055743 / 4503599627370496\<rparr>,
             \<lparr>wavelength = 401, intensity = 1/2\<rparr>]"
  note T = modules_agree_on_common_domain
      [where data = scenario and mh = "1/20" and pr = "1/10" and x = 504 and a = 1 and c = 500
         and w = 0 and gv = 0 and lv = 0 and rd = rd64 and m = NormArea
         and obs = "[1, 2]" and prd = "[1, 2]" and rv = 1 and ev = 0
         and st = "calculateStatistics scenario" and wl = 3 and po = 2]
  note N = modules_agree_on_common_domain
      [where data = ?d and rd = rd64 and m = NormArea and r = ?n]
  have h1: "\<forall>d\<in>set scenario. intensity d \<noteq> 1/20" by (simp add: scenario_def)
  have h1': "1/20 \<notin> set (map intensity scenario)" by (simp add: scenario_def)
  have h2: "gaussian_ts 504 1 500 0 = Some 0" "lorentzian_ts 504 1 500 0 = Some 0"
    by (simp_all add: gaussian_ts_def lorentzian_ts_def)
  have h3: "normalizeSpectrum_ts_fl rd64 ?d NormArea = Some ?n"
    using divided_06_02 by (simp add: normalizeSpectrum_ts_fl_def area_06_02 those_map_Some)
  have h4: "calculateRSquared_ts_fl rd64 [1, 2] [1, 2] = Some 1"
    by (rule calculateRSquared_ts_fl_self [OF rd64_0 rd64_1]) (simp add: sumSquares_1_2)
  have h5: "calculateRMSE_ts [1, 2] [1, 2] = Some 0"
    by (simp add: calculateRMSE_ts_def)
  have h6: "calculateStatistics_ts scenario = Some (calculateStatistics scenario)"
    by (simp add: calculateStatistics_ts_def calculateStatistics_def scenario_def Let_def)
  have h7: "(0::int) \<le> 3" by simp
  from T h1 have c1: "detectPeaks_ts scenario (1/10) (1/20) = detectPeaks scenario (1/10) (1/20)"
    by blast
  from T h2 have c2: "gaussian 504 1 500 0 = 0" "lorentzian 504 1 500 0 = 0" by blast+
  from N h3 have c3: "normalizeSpectrum_fl rd64 ?d NormArea = ?n" by blast
  from T h4 have c4: "calculateRSquared_fl rd64 [1, 2] [1, 2] = Some 1" by blast
  from T h5 have c5: "calculateRMSE [1, 2] [1, 2] = Some 0" by blast
  from T h7 have c7: "\<exists>r r'. savitzkyGolayFilter_ts scenario 3 2 = Some r
              \<and> savitzkyGolayFilter scenario 3 2 = Some r'
              \<and> length r = length scenario \<and> length r' = length scenario"
    by blast
  from h1' h2 h3 h4 h5 h6 h7 c1 c2 c3 c4 c5 c7 show ?thesis by blast
qed

end
